theory Spec2Isabelle
  imports Complex_Main "HOL-Library.List_Lexorder" "HOL-Library.Multiset"
begin

section \<open>Strings\<close>

text \<open>
  A Python \<open>str\<close> is a sequence of Unicode code points; it is modelled as a list of
  natural numbers. \<open>u\<close> turns an ASCII literal into such a list. Code points that the
  theory syntax cannot hold inside a literal (the typographic apostrophe U+2019 and the
  en dash U+2013 of the reply texts) are written as numbers.
\<close>

type_synonym ustr = "nat list"

type_synonym bytes = "nat list"

definition u :: "string \<Rightarrow> ustr" where
  "u s = map of_char s"

text \<open>
  \<open>str.isspace\<close>, which decides what \<open>str.strip()\<close> removes: the complete set of
  white-space code points of Python 3.
\<close>

definition isspace :: "nat \<Rightarrow> bool" where
  "isspace c \<longleftrightarrow>
     (9 \<le> c \<and> c \<le> 13) \<or> (28 \<le> c \<and> c \<le> 32) \<or> c = 133 \<or> c = 160 \<or> c = 5760 \<or>
     (8192 \<le> c \<and> c \<le> 8202) \<or> c = 8232 \<or> c = 8233 \<or> c = 8239 \<or> c = 8287 \<or> c = 12288"

definition strip :: "ustr \<Rightarrow> ustr" where
  "strip s = rev (dropWhile isspace (rev (dropWhile isspace s)))"

text \<open>
  \<open>str.lower()\<close>. On the Basic Latin and Latin-1 blocks (U+0000 to U+00FF) it maps
  each code point on its own: \<open>A\<close> to \<open>Z\<close> and U+00C0 to U+00DE without U+00D7 move up
  by 32, everything else stays. What it puts for a code point above U+00FF is decided by
  the case tables of the Python runtime, which are not part of this program, and for the
  capital sigma by the neighbours of the code point too; one code point can give several.
  These tables are a parameter of the model: \<open>tab s i\<close> is what \<open>s.lower()\<close>
  holds in the place of the code point at index \<open>i\<close> of \<open>s\<close>.
\<close>

type_synonym case_map = "ustr \<Rightarrow> nat \<Rightarrow> ustr"

definition lower_cp :: "nat \<Rightarrow> nat" where
  "lower_cp c = (if (65 \<le> c \<and> c \<le> 90) \<or> (192 \<le> c \<and> c \<le> 222 \<and> c \<noteq> 215) then c + 32 else c)"

fun lower_from :: "case_map \<Rightarrow> ustr \<Rightarrow> nat \<Rightarrow> ustr \<Rightarrow> ustr" where
  "lower_from tab s i [] = []"
| "lower_from tab s i (c # cs) =
     (if c < 256 then [lower_cp c] else tab s i) @ lower_from tab s (Suc i) cs"

definition lower :: "case_map \<Rightarrow> ustr \<Rightarrow> ustr" where
  "lower tab s = lower_from tab s 0 s"

text \<open>\<open>kw in text\<close> on strings: \<open>kw\<close> occurs in \<open>text\<close> as a contiguous run.\<close>

fun contains :: "'a list \<Rightarrow> 'a list \<Rightarrow> bool" where
  "contains [] kw \<longleftrightarrow> kw = []"
| "contains (x # xs) kw \<longleftrightarrow> take (length kw) (x # xs) = kw \<or> contains xs kw"

text \<open>\<open>s[:n]\<close> and truthiness of a string.\<close>

definition truthy_str :: "ustr \<Rightarrow> bool" where
  "truthy_str s \<longleftrightarrow> s \<noteq> []"

definition or_str :: "ustr option \<Rightarrow> ustr \<Rightarrow> ustr" where
  "or_str x d = (case x of None \<Rightarrow> d | Some s \<Rightarrow> if truthy_str s then s else d)"

section \<open>The responder (app/services/ai_pipeline.py, generate_reply)\<close>

definition ask_repeat_message :: ustr where
  "ask_repeat_message =
     u ''I couldn't clearly understand the audio. '' @
     u ''Could you please repeat your question about your bill or refund?''"

definition refund_message :: ustr where
  "refund_message =
     u ''I understand you'' @ [8217] @ u ''d like a refund for your recent bill. '' @
     u ''I'' @ [8217] @ u ''ve marked this as a refund request with high priority. '' @
     u ''You'' @ [8217] @ u ''ll receive an update on the refund status within 3'' @ [8211] @
     u ''5 business days.''"

definition billing_message :: ustr where
  "billing_message =
     u ''I can help explain your bill. '' @
     u ''Your latest invoice usually includes your base plan, taxes, '' @
     u ''and any extra usage or late fees. '' @
     u ''If you'' @ [8217] @ u ''d like, I can break down the charges for the last billing cycle.''"

definition fallback_message :: ustr where
  "fallback_message =
     u ''Thanks for your question. '' @
     u ''I'' @ [8217] @ u ''ve logged your request and linked it to your account. '' @
     u ''Someone from the billing team will review it and get back to you soon.''"

definition generate_reply :: "case_map \<Rightarrow> ustr \<Rightarrow> ustr" where
  "generate_reply tab user_text =
     (if \<not> truthy_str user_text \<or> strip user_text = [] then ask_repeat_message
      else
        let text = strip (lower tab user_text) in
        if contains text (u ''refund'') \<or> contains text (u ''money back'') then refund_message
        else if contains text (u ''bill'')
              \<or> contains text (u ''charge'')
              \<or> contains text (u ''charges'')
              \<or> contains text (u ''amount'')
              \<or> contains text (u ''invoice'')
              \<or> contains text (u ''fees'')
              \<or> contains text (u ''fee'')
        then billing_message
        else fallback_message)"

section \<open>Data model (app/models/models.py)\<close>

text \<open>
  One record per table, one field per column. Field names carry the table as a prefix,
  since two records cannot share a field name. \<open>Optional[...]\<close> columns are options.
\<close>

record session =
  sess_id :: ustr
  sess_customer_id :: ustr
  sess_language :: ustr
  sess_channel :: ustr
  sess_persona :: "ustr option"
  sess_created_at :: ustr

record message =
  msg_id :: ustr
  msg_session_id :: ustr
  msg_direction :: "ustr option"
  msg_type :: "ustr option"
  msg_text :: "ustr option"
  msg_audio_path_or_b64 :: "ustr option"
  msg_transcript :: "ustr option"
  msg_reply_text :: "ustr option"
  msg_reply_audio_path_or_b64 :: "ustr option"
  msg_created_at :: ustr

record model_call =
  mc_id :: ustr
  mc_message_id :: "ustr option"
  mc_model_type :: "ustr option"
  mc_model_id :: "ustr option"
  mc_duration_ms :: "int option"
  mc_raw_response_snippet :: "ustr option"
  mc_created_at :: ustr

text \<open>JSON values as Python holds them after parsing (\<open>Dict[str, Any]\<close>).\<close>

datatype json =
    JNull
  | JBool bool
  | JInt int
  | JFloat rat
  | JStr ustr
  | JList "json list"
  | JObj "(ustr \<times> json) list"

type_synonym dict = "ustr \<rightharpoonup> json"

text \<open>The request body of the tools endpoint (class \<open>MCPPayload\<close> of app/api/v1/tools.py).\<close>

record mcp_payload =
  p_session_id :: ustr
  p_customer_id :: "ustr option"
  p_llm_response :: "ustr option"
  p_scenario :: "ustr option"
  p_crm_record :: "dict option"
  p_meta :: "dict option"

record crm_record =
  crm_id :: ustr
  crm_session_id :: "ustr option"
  crm_customer_id :: "ustr option"
  crm_scenario :: "ustr option"
  crm_record_json :: "dict option"
  crm_status :: "ustr option"
  crm_created_at :: ustr

text \<open>\<open>payload_json\<close> holds \<open>payload.dict()\<close>: the payload, field by field.\<close>

record tool_call =
  tc_id :: ustr
  tc_session_id :: "ustr option"
  tc_payload_json :: "mcp_payload option"
  tc_status :: "ustr option"
  tc_created_at :: ustr

section \<open>The store (app/db/database.py)\<close>

text \<open>
  The relational store: five tables, each a list of rows in insertion order. A unit of work
  is the list of rows handed to \<open>db.add\<close> before one \<open>db.commit()\<close>. The commit is the
  storage engine's transaction: it writes every row of the unit or none. It fails when a
  primary key of the unit is already taken (every \<open>id\<close> column is declared
  \<open>primary_key=True\<close>) or when the engine fails for a reason of its own; what the engine
  does is not decided by this program, so it is an input of the model.
\<close>

record database =
  sessions :: "session list"
  messages :: "message list"
  model_calls :: "model_call list"
  crm_records :: "crm_record list"
  tool_calls :: "tool_call list"

datatype row =
    SessionRow session
  | MessageRow message
  | ModelCallRow model_call
  | CRMRecordRow crm_record
  | ToolCallRow tool_call

datatype table = SessionT | MessageT | ModelCallT | CRMRecordT | ToolCallT

fun row_key :: "row \<Rightarrow> table \<times> ustr" where
  "row_key (SessionRow r) = (SessionT, sess_id r)"
| "row_key (MessageRow r) = (MessageT, msg_id r)"
| "row_key (ModelCallRow r) = (ModelCallT, mc_id r)"
| "row_key (CRMRecordRow r) = (CRMRecordT, crm_id r)"
| "row_key (ToolCallRow r) = (ToolCallT, tc_id r)"

definition db_keys :: "database \<Rightarrow> (table \<times> ustr) list" where
  "db_keys db =
     map (\<lambda>r. (SessionT, sess_id r)) (sessions db) @
     map (\<lambda>r. (MessageT, msg_id r)) (messages db) @
     map (\<lambda>r. (ModelCallT, mc_id r)) (model_calls db) @
     map (\<lambda>r. (CRMRecordT, crm_id r)) (crm_records db) @
     map (\<lambda>r. (ToolCallT, tc_id r)) (tool_calls db)"

fun insert_row :: "database \<Rightarrow> row \<Rightarrow> database" where
  "insert_row db (SessionRow r) = db\<lparr>sessions := sessions db @ [r]\<rparr>"
| "insert_row db (MessageRow r) = db\<lparr>messages := messages db @ [r]\<rparr>"
| "insert_row db (ModelCallRow r) = db\<lparr>model_calls := model_calls db @ [r]\<rparr>"
| "insert_row db (CRMRecordRow r) = db\<lparr>crm_records := crm_records db @ [r]\<rparr>"
| "insert_row db (ToolCallRow r) = db\<lparr>tool_calls := tool_calls db @ [r]\<rparr>"

text \<open>
  What the storage engine does at one commit: \<open>storage_fault = Some e\<close> when it fails by
  itself (\<open>e\<close> is \<open>str\<close> of the exception), and the text of the exception it raises when a
  primary key is taken.
\<close>

record storage =
  storage_fault :: "ustr option"
  unique_violation :: ustr

definition pk_conflict :: "row list \<Rightarrow> database \<Rightarrow> bool" where
  "pk_conflict rows db \<longleftrightarrow>
     \<not> distinct (map row_key rows) \<or> (\<exists>k\<in>set (map row_key rows). k \<in> set (db_keys db))"

definition commit :: "storage \<Rightarrow> row list \<Rightarrow> database \<Rightarrow> ustr + database" where
  "commit st rows db =
     (case storage_fault st of
        Some e \<Rightarrow> Inl e
      | None \<Rightarrow>
          if pk_conflict rows db then Inl (unique_violation st)
          else Inr (foldl insert_row db rows))"

text \<open>
  What a handler can raise. \<open>HTTPException\<close> is the error the handlers build themselves
  (status code and detail); the others are exceptions of libraries that reach a handler,
  which catches them or lets them through.
\<close>

datatype exn =
    HTTPException nat ustr
  | StorageError ustr
  | B64DecodeError
  | MultipleResultsFound
  | ClientError ustr

text \<open>\<open>result.scalars().one_or_none()\<close>\<close>

definition one_or_none :: "'a list \<Rightarrow> exn + 'a option" where
  "one_or_none rows =
     (case rows of
        [] \<Rightarrow> Inr None
      | [r] \<Rightarrow> Inr (Some r)
      | _ \<Rightarrow> Inl MultipleResultsFound)"

section \<open>CRM intake (app/api/v1/tools.py, mcp_handler)\<close>

text \<open>Truthiness of a Python value, as \<open>not rec.get(f)\<close> tests it.\<close>

fun truthy :: "json \<Rightarrow> bool" where
  "truthy JNull \<longleftrightarrow> False"
| "truthy (JBool b) \<longleftrightarrow> b"
| "truthy (JInt i) \<longleftrightarrow> i \<noteq> 0"
| "truthy (JFloat r) \<longleftrightarrow> r \<noteq> 0"
| "truthy (JStr s) \<longleftrightarrow> s \<noteq> []"
| "truthy (JList xs) \<longleftrightarrow> xs \<noteq> []"
| "truthy (JObj kvs) \<longleftrightarrow> kvs \<noteq> []"

definition truthy_opt :: "ustr option \<Rightarrow> bool" where
  "truthy_opt x = (case x of None \<Rightarrow> False | Some s \<Rightarrow> truthy_str s)"

text \<open>\<open>payload.crm_record or {}\<close>\<close>

definition or_dict :: "dict option \<Rightarrow> dict" where
  "or_dict d = (case d of None \<Rightarrow> Map.empty | Some m \<Rightarrow> m)"

definition required_fields :: "ustr list" where
  "required_fields =
     [u ''name'', u ''phone'', u ''account_id'', u ''query'', u ''intent'', u ''priority'']"

definition missing_fields :: "dict \<Rightarrow> ustr list" where
  "missing_fields rec =
     filter (\<lambda>f. \<not> (case rec f of None \<Rightarrow> False | Some v \<Rightarrow> truthy v)) required_fields"

text \<open>
  \<open>f"{missing}"\<close>: the \<open>repr\<close> of a list of field names. The names come from the fixed list
  above and hold nothing that \<open>repr\<close> escapes, so each is put between single quotes.
\<close>

fun join :: "ustr \<Rightarrow> ustr list \<Rightarrow> ustr" where
  "join sep [] = []"
| "join sep [x] = x"
| "join sep (x # y # ys) = x @ sep @ join sep (y # ys)"

definition repr_list :: "ustr list \<Rightarrow> ustr" where
  "repr_list xs = u ''['' @ join (u '', '') (map (\<lambda>x. [39] @ x @ [39]) xs) @ u '']''"

text \<open>
  What the handler takes from outside at one call: two fresh identifiers, two clock
  readings, and the storage engine's behaviour at the first commit and at the second one.
\<close>

record mcp_env =
  uuid_crm :: ustr
  now_crm :: ustr
  uuid_tool :: ustr
  now_tool :: ustr
  commit_first :: storage
  commit_second :: storage

record mcp_response =
  r_ok :: bool
  r_status :: "ustr option"
  r_crm_record_id :: ustr
  r_tool_call_id :: ustr

definition mcp_crm_row :: "mcp_env \<Rightarrow> mcp_payload \<Rightarrow> session \<Rightarrow> crm_record" where
  "mcp_crm_row env payload session_row =
     \<lparr>crm_id = uuid_crm env,
      crm_session_id = Some (p_session_id payload),
      crm_customer_id = Some (or_str (p_customer_id payload) (sess_customer_id session_row)),
      crm_scenario = p_scenario payload,
      crm_record_json = Some (or_dict (p_crm_record payload)),
      crm_status = Some (u ''pending''),
      crm_created_at = now_crm env\<rparr>"

definition mcp_tool_row :: "mcp_env \<Rightarrow> mcp_payload \<Rightarrow> tool_call" where
  "mcp_tool_row env payload =
     \<lparr>tc_id = uuid_tool env,
      tc_session_id = Some (p_session_id payload),
      tc_payload_json = Some payload,
      tc_status = Some (u ''accepted''),
      tc_created_at = now_tool env\<rparr>"

text \<open>
  The ORM session between two commits. A commit that fails leaves the session's
  transaction inactive: until \<open>rollback()\<close> is called on the session, every further
  \<open>commit()\<close> raises (\<open>PendingRollbackError\<close>) before anything reaches the storage
  engine.
\<close>

datatype tx_state = TxActive | TxInactive

definition pending_rollback_error :: ustr where
  "pending_rollback_error = u ''PendingRollbackError''"

definition session_commit ::
  "tx_state \<Rightarrow> storage \<Rightarrow> row list \<Rightarrow> database \<Rightarrow> (ustr + database) \<times> tx_state" where
  "session_commit tx st rows db =
     (case tx of
        TxInactive \<Rightarrow> (Inl pending_rollback_error, TxInactive)
      | TxActive \<Rightarrow>
          (case commit st rows db of
             Inl e \<Rightarrow> (Inl e, TxInactive)
           | Inr db' \<Rightarrow> (Inr db', TxActive)))"

text \<open>
  The handler returns its response or the exception it raises, and the store as it leaves
  it. After a failed first commit the handler marks the tool call "failed", adds it and
  commits again on the same session, with no rollback in between; the bare
  \<open>except: pass\<close> around the second commit drops its failure.
\<close>

definition mcp_handler ::
  "mcp_env \<Rightarrow> database \<Rightarrow> mcp_payload \<Rightarrow> (exn + mcp_response) \<times> database" where
  "mcp_handler env db payload =
     (if \<not> truthy_opt (p_scenario payload)
      then (Inl (HTTPException 400 (u ''scenario is required'')), db)
      else
        let missing =
              (if p_scenario payload = Some (u ''billing_query'')
               then missing_fields (or_dict (p_crm_record payload)) else [])
        in
        if missing \<noteq> []
        then (Inl (HTTPException 400 (u ''Missing crm_record fields: '' @ repr_list missing)), db)
        else
          case one_or_none (filter (\<lambda>s. sess_id s = p_session_id payload) (sessions db)) of
            Inl e \<Rightarrow> (Inl e, db)
          | Inr None \<Rightarrow> (Inl (HTTPException 404 (u ''session not found'')), db)
          | Inr (Some session_row) \<Rightarrow>
              let crm_row = mcp_crm_row env payload session_row;
                  tool_row = mcp_tool_row env payload
              in
              case session_commit TxActive (commit_first env)
                     [CRMRecordRow crm_row, ToolCallRow tool_row] db of
                (Inr db', tx) \<Rightarrow>
                  (Inr \<lparr>r_ok = True, r_status = tc_status tool_row,
                        r_crm_record_id = crm_id crm_row, r_tool_call_id = tc_id tool_row\<rparr>,
                   db')
              | (Inl e, tx) \<Rightarrow>
                  let tool_row' = tool_row\<lparr>tc_status := Some (u ''failed'')\<rparr> in
                  (Inl (HTTPException 500 (u ''DB error: '' @ e)),
                   case session_commit tx (commit_second env) [ToolCallRow tool_row'] db of
                     (Inr db', tx') \<Rightarrow> db'
                   | (Inl e', tx') \<Rightarrow> db))"

section \<open>Speech stages (app/services/ai_pipeline.py, run_asr and run_tts)\<close>

text \<open>
  What one message post takes from outside: fresh identifiers and clock readings (one per
  call of \<open>gen_uuid\<close> and \<open>now_iso\<close>), the case tables behind \<open>str.lower()\<close>,
  the measured stage durations, the base64 decoder
  of the standard library (\<open>None\<close>: it raises), whether the media directory can be
  written, what \<open>os.path.exists\<close> and \<open>os.path.getsize\<close> report (\<open>None\<close>: no such
  file, or the probe fails), the storage engine's behaviour at the commit, and what happens
  to the HTTP request to the tools endpoint: whether it reaches the handler (and what the
  handler then takes from outside), and whether the HTTP client raises (connection error,
  timeout).
\<close>

record dispatch_env =
  delivered :: "mcp_env option"
  client_error :: "ustr option"

record post_env =
  uuid_message :: ustr
  now_message :: ustr
  case_map :: case_map
  b64decode :: "ustr \<Rightarrow> bytes option"
  media_write_ok :: bool
  file_size :: "ustr \<Rightarrow> nat option"
  asr_duration_ms :: int
  uuid_asr :: ustr
  now_asr :: ustr
  llm_duration_ms :: int
  uuid_llm :: ustr
  now_llm :: ustr
  tts_write_ok :: bool
  urandom_hex :: ustr
  tts_duration_ms :: int
  uuid_tts :: ustr
  now_tts :: ustr
  post_commit :: storage
  dispatch :: dispatch_env

datatype asr_source = SourcePath ustr | SourceBytes bytes

text \<open>Every exception inside \<open>run_asr\<close> is caught there and gives the empty transcript.\<close>

definition run_asr :: "post_env \<Rightarrow> asr_source \<Rightarrow> ustr \<Rightarrow> ustr" where
  "run_asr env source mime =
     (case source of
        SourcePath p \<Rightarrow>
          (case file_size env p of
             Some n \<Rightarrow>
               if n > 0 then u ''<transcript_from_asr_pending_real_model>''
               else u ''<empty_transcript>''
           | None \<Rightarrow> u ''<empty_transcript>'')
      | SourceBytes b \<Rightarrow>
          if length b = 0 then u ''<empty_transcript>''
          else u ''<transcript_from_asr_pending_real_model>'')"

text \<open>Every exception inside \<open>run_tts\<close> is caught there and gives \<open>None\<close>.\<close>

definition run_tts :: "post_env \<Rightarrow> ustr \<Rightarrow> ustr option \<Rightarrow> ustr option" where
  "run_tts env reply message_id =
     (if tts_write_ok env
      then Some (u ''media/reply_'' @
                 (case message_id of None \<Rightarrow> u ''tts_'' @ urandom_hex env | Some m \<Rightarrow> m) @
                 u ''.wav'')
      else None)"

section \<open>Message post (app/api/v1/sessions.py, post_message)\<close>

record message_req =
  req_type :: ustr
  req_text :: "ustr option"
  req_audio_base64 :: "ustr option"
  req_mime :: "ustr option"

record post_result =
  res_message_id :: ustr
  res_session_id :: ustr
  res_created_at :: ustr
  res_incoming_text :: "ustr option"
  res_transcript :: "ustr option"
  res_reply_text :: "ustr option"
  res_reply_audio_path :: "ustr option"

text \<open>
  Lines 112 to 129: the incoming audio is decoded and written under \<open>media/\<close>; any
  exception there is caught and leaves the audio reference unset.
\<close>

definition save_incoming_audio :: "post_env \<Rightarrow> ustr \<Rightarrow> message_req \<Rightarrow> ustr option" where
  "save_incoming_audio env message_id msg =
     (if truthy_opt (req_audio_base64 msg) then
        (if \<not> media_write_ok env then None
         else
           case b64decode env (or_str (req_audio_base64 msg) []) of
             None \<Rightarrow> None
           | Some audio_bytes \<Rightarrow>
               let ext =
                     (if truthy_opt (req_mime msg)
                         \<and> contains (lower (case_map env) (or_str (req_mime msg) [])) (u ''mp3'')
                      then u ''.mp3'' else u ''.wav'')
               in Some (u ''media/'' @ message_id @ ext))
      else None)"

text \<open>Lines 102 to 143: the message row before the pipeline runs.\<close>

definition initial_message_row :: "post_env \<Rightarrow> ustr \<Rightarrow> message_req \<Rightarrow> message" where
  "initial_message_row env session_id msg =
     (let message_id = uuid_message env;
          created_at = now_message env;
          incoming_text =
            (if req_type msg = u ''text'' then Some (or_str (req_text msg) []) else None);
          transcript =
            (if req_type msg = u ''text'' then or_str (req_text msg) []
             else u ''<audio_received>'');
          audio_path_or_b64 =
            (if req_type msg = u ''text'' then None
             else save_incoming_audio env message_id msg)
      in \<lparr>msg_id = message_id,
          msg_session_id = session_id,
          msg_direction = Some (u ''incoming''),
          msg_type = Some (req_type msg),
          msg_text = incoming_text,
          msg_audio_path_or_b64 = audio_path_or_b64,
          msg_transcript = Some transcript,
          msg_reply_text = None,
          msg_reply_audio_path_or_b64 = None,
          msg_created_at = created_at\<rparr>)"

text \<open>
  Lines 159 to 169: the input of the ASR stage. The second \<open>base64.b64decode\<close> stands
  outside every \<open>try\<close>: when it raises, the handler raises.
\<close>

definition choose_asr_source :: "post_env \<Rightarrow> ustr option \<Rightarrow> message_req \<Rightarrow> exn + asr_source" where
  "choose_asr_source env audio_path_or_b64 msg =
     (if truthy_opt audio_path_or_b64 then Inr (SourcePath (or_str audio_path_or_b64 []))
      else if truthy_opt (req_audio_base64 msg) then
        (case b64decode env (or_str (req_audio_base64 msg) []) of
           None \<Rightarrow> Inl B64DecodeError
         | Some b \<Rightarrow> Inr (SourceBytes b))
      else Inr (SourceBytes []))"

text \<open>
  Lines 153 to 238: the stages. The result is the transcript, the reply, the message row
  with its transcript and reply fields filled, and \<open>model_calls_to_save\<close>.
\<close>

definition run_stages ::
  "post_env \<Rightarrow> message_req \<Rightarrow> message \<Rightarrow> exn + (ustr \<times> ustr \<times> message \<times> model_call list)" where
  "run_stages env msg message_row0 =
     (let message_id = msg_id message_row0 in
      case (if req_type msg = u ''audio'' then
              (case choose_asr_source env (msg_audio_path_or_b64 message_row0) msg of
                 Inl e \<Rightarrow> Inl e
               | Inr asr_source \<Rightarrow>
                   let transcript = run_asr env asr_source (or_str (req_mime msg) (u ''audio/wav''));
                       asr_call =
                         \<lparr>mc_id = uuid_asr env,
                          mc_message_id = Some message_id,
                          mc_model_type = Some (u ''ASR''),
                          mc_model_id = Some (u ''Systran/faster-whisper-tiny.en''),
                          mc_duration_ms = Some (asr_duration_ms env),
                          mc_raw_response_snippet = Some (take 200 transcript),
                          mc_created_at = now_asr env\<rparr>
                   in Inr (transcript, message_row0\<lparr>msg_transcript := Some transcript\<rparr>, [asr_call]))
            else Inr (or_str (msg_transcript message_row0) [], message_row0, []))
      of
        Inl e \<Rightarrow> Inl e
      | Inr (transcript, message_row1, calls1) \<Rightarrow>
          let user_text =
                (if req_type msg = u ''text'' then or_str (msg_text message_row0) []
                 else or_str (Some transcript) []);
              llm_reply = generate_reply (case_map env) user_text;
              llm_call =
                \<lparr>mc_id = uuid_llm env,
                 mc_message_id = Some message_id,
                 mc_model_type = Some (u ''LLM''),
                 mc_model_id = Some (u ''rule-based-generate-reply-v1''),
                 mc_duration_ms = Some (llm_duration_ms env),
                 mc_raw_response_snippet = Some (take 200 llm_reply),
                 mc_created_at = now_llm env\<rparr>;
              tts_path = run_tts env llm_reply (Some message_id);
              tts_call =
                \<lparr>mc_id = uuid_tts env,
                 mc_message_id = Some message_id,
                 mc_model_type = Some (u ''TTS''),
                 mc_model_id = Some (u ''stub-tts''),
                 mc_duration_ms = Some (tts_duration_ms env),
                 mc_raw_response_snippet = map_option (take 200) tts_path,
                 mc_created_at = now_tts env\<rparr>;
              message_row2 =
                message_row1\<lparr>msg_reply_text := Some llm_reply,
                              msg_reply_audio_path_or_b64 := tts_path\<rparr>
          in Inr (transcript, llm_reply, message_row2, calls1 @ [llm_call, tts_call]))"

text \<open>Lines 248 to 262: the payload sent to the tools endpoint.\<close>

definition crm_payload :: "ustr \<Rightarrow> session \<Rightarrow> ustr \<Rightarrow> ustr \<Rightarrow> mcp_payload" where
  "crm_payload session_id s llm_reply transcript =
     \<lparr>p_session_id = session_id,
      p_customer_id = Some (or_str (Some (sess_customer_id s)) (u ''cust_demo'')),
      p_llm_response = Some llm_reply,
      p_scenario = Some (u ''billing_query''),
      p_crm_record = Some
        [u ''name'' \<mapsto> JStr (u ''Asha Sharma''),
         u ''phone'' \<mapsto> JStr (u ''+91-98xxxxxxx''),
         u ''account_id'' \<mapsto> JStr (u ''acc_'' @ take 8 session_id),
         u ''query'' \<mapsto> JStr transcript,
         u ''intent'' \<mapsto> JStr (u ''request_refund''),
         u ''priority'' \<mapsto> JStr (u ''high'')],
      p_meta = Some
        [u ''model'' \<mapsto> JStr (u ''stub-llm''),
         u ''confidence'' \<mapsto> JFloat (1 / 2)]\<rparr>"

text \<open>
  Line 270, \<open>client.post\<close>: the request may reach the tools endpoint of the same service,
  which then runs \<open>mcp_handler\<close> on the store, and the client may raise. The response is
  not looked at, whatever its status.
\<close>

definition client_post :: "dispatch_env \<Rightarrow> database \<Rightarrow> mcp_payload \<Rightarrow> (exn + unit) \<times> database" where
  "client_post d db payload =
     (let db' = (case delivered d of None \<Rightarrow> db | Some menv \<Rightarrow> snd (mcp_handler menv db payload))
      in case client_error d of
           Some e \<Rightarrow> (Inl (ClientError e), db')
         | None \<Rightarrow> (Inr (), db'))"

definition post_summary :: "ustr \<Rightarrow> message \<Rightarrow> post_result" where
  "post_summary session_id message_row =
     \<lparr>res_message_id = msg_id message_row,
      res_session_id = session_id,
      res_created_at = msg_created_at message_row,
      res_incoming_text = msg_text message_row,
      res_transcript = msg_transcript message_row,
      res_reply_text = msg_reply_text message_row,
      res_reply_audio_path = msg_reply_audio_path_or_b64 message_row\<rparr>"

text \<open>
  The handler returns its result or the exception it raises, and the store as it leaves it.
  Nothing catches an exception of \<open>db.commit()\<close> here: it leaves the handler as it is.
\<close>

definition post_message ::
  "post_env \<Rightarrow> database \<Rightarrow> ustr \<Rightarrow> message_req \<Rightarrow> (exn + post_result) \<times> database" where
  "post_message env db session_id msg =
     (if req_type msg \<noteq> u ''text'' \<and> req_type msg \<noteq> u ''audio''
      then (Inl (HTTPException 400 (u ''type must be 'text' or 'audio'' @ [39])), db)
      else
        let message_row0 = initial_message_row env session_id msg in
        case one_or_none (filter (\<lambda>s. sess_id s = session_id) (sessions db)) of
          Inl e \<Rightarrow> (Inl e, db)
        | Inr None \<Rightarrow> (Inl (HTTPException 404 (u ''session not found'')), db)
        | Inr (Some s) \<Rightarrow>
            (case run_stages env msg message_row0 of
               Inl e \<Rightarrow> (Inl e, db)
             | Inr (transcript, llm_reply, message_row, model_calls_to_save) \<Rightarrow>
                 (case commit (post_commit env)
                         (MessageRow message_row # map ModelCallRow model_calls_to_save) db of
                    Inl e \<Rightarrow> (Inl (StorageError e), db)
                  | Inr db' \<Rightarrow>
                      (case client_post (dispatch env) db'
                              (crm_payload session_id s llm_reply transcript) of
                         (Inl e, db'') \<Rightarrow> (Inr (post_summary session_id message_row), db'')
                       | (Inr r, db'') \<Rightarrow> (Inr (post_summary session_id message_row), db'')))))"

section \<open>Creation times (app/api/v1/sessions.py, now_iso)\<close>

text \<open>
  A reading of \<open>datetime.datetime.utcnow()\<close> (year 1 to 9999, microsecond below
  1000000), and \<open>isoformat()\<close> of it: the date and the time of day in fixed width, then the microseconds as a fraction of six digits,
  which \<open>isoformat\<close> leaves out when the microseconds are zero. \<open>now_iso\<close> appends
  \<open>Z\<close>; every \<open>created_at\<close> is such a string. \<open>dt_key\<close> orders readings in time.
\<close>

record datetime =
  dt_year :: nat
  dt_month :: nat
  dt_day :: nat
  dt_hour :: nat
  dt_minute :: nat
  dt_second :: nat
  dt_microsecond :: nat

definition digit :: "nat \<Rightarrow> nat" where
  "digit n = 48 + n mod 10"

definition digits2 :: "nat \<Rightarrow> ustr" where
  "digits2 n = [digit (n div 10), digit n]"

definition digits4 :: "nat \<Rightarrow> ustr" where
  "digits4 n = [digit (n div 1000), digit (n div 100), digit (n div 10), digit n]"

definition digits6 :: "nat \<Rightarrow> ustr" where
  "digits6 n =
     [digit (n div 100000), digit (n div 10000), digit (n div 1000), digit (n div 100),
      digit (n div 10), digit n]"

definition isoformat :: "datetime \<Rightarrow> ustr" where
  "isoformat d =
     digits4 (dt_year d) @ u ''-'' @ digits2 (dt_month d) @ u ''-'' @ digits2 (dt_day d) @
     u ''T'' @ digits2 (dt_hour d) @ u '':'' @ digits2 (dt_minute d) @ u '':'' @
     digits2 (dt_second d) @
     (if dt_microsecond d = 0 then [] else u ''.'' @ digits6 (dt_microsecond d))"

definition now_iso :: "datetime \<Rightarrow> ustr" where
  "now_iso utcnow = isoformat utcnow @ u ''Z''"

definition dt_key :: "datetime \<Rightarrow> nat list" where
  "dt_key d =
     [dt_year d, dt_month d, dt_day d, dt_hour d, dt_minute d, dt_second d, dt_microsecond d]"

section \<open>Conversation read-back (app/api/v1/sessions.py, get_conversation)\<close>

record conversation =
  conv_session :: session
  conv_messages :: "message list"
  conv_crm_records :: "crm_record list"
  conv_tool_calls :: "tool_call list"
  conv_model_calls :: "model_call list"

text \<open>
  \<open>ORDER BY created_at\<close> compares the stored strings (the model compares them code point
  by code point) and leaves the order of rows with equal strings to the storage engine: the
  result of a query is any arrangement of the selected rows that is sorted by the column.
  So \<open>get_conversation\<close> is a relation between the store, the session id and an outcome.
  The join of model calls with messages pairs every model call with every message that has
  its \<open>message_id\<close>. For a missing session the source sets status 404 on the response
  and returns the body an \<open>HTTPException(404)\<close> would give; the model writes it as that
  exception.
\<close>

definition order_by :: "('a \<Rightarrow> ustr) \<Rightarrow> 'a list \<Rightarrow> 'a list \<Rightarrow> bool" where
  "order_by key rows result \<longleftrightarrow> mset result = mset rows \<and> sorted (map key result)"

definition get_conversation ::
  "database \<Rightarrow> ustr \<Rightarrow> (exn + conversation) \<times> database \<Rightarrow> bool" where
  "get_conversation db session_id outcome \<longleftrightarrow>
     (case one_or_none (filter (\<lambda>s. sess_id s = session_id) (sessions db)) of
        Inl e \<Rightarrow> outcome = (Inl e, db)
      | Inr None \<Rightarrow> outcome = (Inl (HTTPException 404 (u ''session not found'')), db)
      | Inr (Some session_obj) \<Rightarrow>
          snd outcome = db \<and>
          (case fst outcome of
             Inl e \<Rightarrow> False
           | Inr c \<Rightarrow>
               conv_session c = session_obj
               \<and> order_by msg_created_at
                    (filter (\<lambda>m. msg_session_id m = session_id) (messages db))
                    (conv_messages c)
               \<and> order_by crm_created_at
                    (filter (\<lambda>c. crm_session_id c = Some session_id) (crm_records db))
                    (conv_crm_records c)
               \<and> order_by tc_created_at
                    (filter (\<lambda>t. tc_session_id t = Some session_id) (tool_calls db))
                    (conv_tool_calls c)
               \<and> order_by mc_created_at
                    (concat (map (\<lambda>mc.
                       map (\<lambda>m. mc)
                         (filter (\<lambda>m. mc_message_id mc = Some (msg_id m)
                                       \<and> msg_session_id m = session_id) (messages db)))
                       (model_calls db)))
                    (conv_model_calls c)))"

section \<open>Example data\<close>

text \<open>
  A fragment of the case tables, for the examples: the Kelvin sign U+212A becomes \<open>k\<close>,
  the capital I with dot U+0130 becomes \<open>i\<close> and U+0307; the fragment keeps every other
  code point.
\<close>

definition case_map_example :: case_map where
  "case_map_example s i =
     (if s ! i = 8490 then [107] else if s ! i = 304 then [105, 775] else [s ! i])"

definition session_example :: session where
  "session_example =
     \<lparr>sess_id = u ''s1'', sess_customer_id = u ''cust_123'', sess_language = u ''en'',
      sess_channel = u ''phone'', sess_persona = None,
      sess_created_at = u ''2024-01-01T10:00:00.000001Z''\<rparr>"

definition message_example :: "ustr \<Rightarrow> ustr \<Rightarrow> ustr \<Rightarrow> message" where
  "message_example mid sid t =
     \<lparr>msg_id = mid, msg_session_id = sid, msg_direction = Some (u ''incoming''),
      msg_type = Some (u ''text''), msg_text = Some (u ''hi''),
      msg_audio_path_or_b64 = None, msg_transcript = Some (u ''hi''),
      msg_reply_text = Some fallback_message, msg_reply_audio_path_or_b64 = None,
      msg_created_at = t\<rparr>"

definition model_call_example :: "ustr \<Rightarrow> ustr \<Rightarrow> ustr \<Rightarrow> model_call" where
  "model_call_example cid mid t =
     \<lparr>mc_id = cid, mc_message_id = Some mid, mc_model_type = Some (u ''LLM''),
      mc_model_id = Some (u ''rule-based-generate-reply-v1''), mc_duration_ms = Some 0,
      mc_raw_response_snippet = None, mc_created_at = t\<rparr>"

definition db_read_example :: database where
  "db_read_example =
     \<lparr>sessions = [session_example, session_example\<lparr>sess_id := u ''s2''\<rparr>],
      messages =
        [message_example (u ''m2'') (u ''s1'') (u ''2024-01-01T10:00:07.000000Z''),
         message_example (u ''m3'') (u ''s2'') (u ''2024-01-01T10:00:06.000000Z''),
         message_example (u ''m1'') (u ''s1'') (u ''2024-01-01T10:00:05.000000Z'')],
      model_calls =
        [model_call_example (u ''c2'') (u ''m2'') (u ''2024-01-01T10:00:07.500000Z''),
         model_call_example (u ''c3'') (u ''m3'') (u ''2024-01-01T10:00:06.500000Z''),
         model_call_example (u ''c1'') (u ''m1'') (u ''2024-01-01T10:00:05.500000Z'')],
      crm_records = [],
      tool_calls = []\<rparr>"

definition dt_first_example :: datetime where
  "dt_first_example =
     \<lparr>dt_year = 2024, dt_month = 1, dt_day = 1, dt_hour = 10, dt_minute = 0, dt_second = 5,
      dt_microsecond = 0\<rparr>"

definition dt_later_example :: datetime where
  "dt_later_example =
     \<lparr>dt_year = 2024, dt_month = 1, dt_day = 1, dt_hour = 10, dt_minute = 0, dt_second = 5,
      dt_microsecond = 500000\<rparr>"

definition message_first_example :: message where
  "message_first_example = message_example (u ''m1'') (u ''s1'') (now_iso dt_first_example)"

definition message_later_example :: message where
  "message_later_example = message_example (u ''m2'') (u ''s1'') (now_iso dt_later_example)"

definition db_iso_example :: database where
  "db_iso_example =
     \<lparr>sessions = [session_example],
      messages = [message_first_example, message_later_example],
      model_calls = [],
      crm_records = [],
      tool_calls = []\<rparr>"

definition record_example :: dict where
  "record_example =
     [u ''name'' \<mapsto> JStr (u ''Asha Sharma''),
      u ''phone'' \<mapsto> JStr (u ''+91-98xxxxxxx''),
      u ''account_id'' \<mapsto> JStr (u ''acc_1''),
      u ''query'' \<mapsto> JStr (u ''Mera bill bahut zyada aaya hai''),
      u ''intent'' \<mapsto> JStr (u ''request_refund''),
      u ''priority'' \<mapsto> JStr (u ''high'')]"

definition payload_example :: "dict \<Rightarrow> mcp_payload" where
  "payload_example rec =
     \<lparr>p_session_id = u ''s1'', p_customer_id = Some (u ''cust_123''),
      p_llm_response = Some billing_message, p_scenario = Some (u ''billing_query''),
      p_crm_record = Some rec, p_meta = None\<rparr>"

definition storage_ok :: storage where
  "storage_ok = \<lparr>storage_fault = None, unique_violation = u ''UNIQUE constraint failed''\<rparr>"

definition storage_down :: storage where
  "storage_down =
     \<lparr>storage_fault = Some (u ''connection lost''),
      unique_violation = u ''UNIQUE constraint failed''\<rparr>"

definition mcp_env_example :: mcp_env where
  "mcp_env_example =
     \<lparr>uuid_crm = u ''crm1'', now_crm = u ''2024-01-01T10:00:08.000001Z'',
      uuid_tool = u ''tool1'', now_tool = u ''2024-01-01T10:00:08.000002Z'',
      commit_first = storage_ok, commit_second = storage_ok\<rparr>"

definition mcp_env_first_fails :: mcp_env where
  "mcp_env_first_fails =
     \<lparr>uuid_crm = u ''crm1'', now_crm = u ''2024-01-01T10:00:08.000001Z'',
      uuid_tool = u ''tool1'', now_tool = u ''2024-01-01T10:00:08.000002Z'',
      commit_first = storage_down, commit_second = storage_ok\<rparr>"

definition dispatch_example :: dispatch_env where
  "dispatch_example = \<lparr>delivered = Some mcp_env_example, client_error = None\<rparr>"

definition dispatch_timeout :: dispatch_env where
  "dispatch_timeout = \<lparr>delivered = None, client_error = Some (u ''timed out'')\<rparr>"

definition post_env_example :: post_env where
  "post_env_example =
     \<lparr>uuid_message = u ''m9'',
      now_message = u ''2024-01-01T10:01:00.000001Z'',
      case_map = case_map_example,
      b64decode = [u ''UklGRg=='' \<mapsto> u ''RIFF''],
      media_write_ok = True,
      file_size = [u ''media/m9.wav'' \<mapsto> 4],
      asr_duration_ms = 3,
      uuid_asr = u ''c7'',
      now_asr = u ''2024-01-01T10:01:00.000002Z'',
      llm_duration_ms = 0,
      uuid_llm = u ''c8'',
      now_llm = u ''2024-01-01T10:01:00.000003Z'',
      tts_write_ok = True,
      urandom_hex = u ''00ff00ff00ff'',
      tts_duration_ms = 2,
      uuid_tts = u ''c9'',
      now_tts = u ''2024-01-01T10:01:00.000004Z'',
      post_commit = storage_ok,
      dispatch = dispatch_example\<rparr>"

definition text_req_example :: message_req where
  "text_req_example =
     \<lparr>req_type = u ''text'', req_text = Some (u ''Mera bill bahut zyada aaya hai''),
      req_audio_base64 = None, req_mime = None\<rparr>"

definition audio_req_example :: "ustr \<Rightarrow> message_req" where
  "audio_req_example a =
     \<lparr>req_type = u ''audio'', req_text = None, req_audio_base64 = Some a, req_mime = None\<rparr>"

definition message_row_example :: message where
  "message_row_example =
     \<lparr>msg_id = u ''m9'', msg_session_id = u ''s1'', msg_direction = Some (u ''incoming''),
      msg_type = Some (u ''text''), msg_text = Some (u ''Mera bill bahut zyada aaya hai''),
      msg_audio_path_or_b64 = None,
      msg_transcript = Some (u ''Mera bill bahut zyada aaya hai''),
      msg_reply_text = Some billing_message,
      msg_reply_audio_path_or_b64 = Some (u ''media/reply_m9.wav''),
      msg_created_at = u ''2024-01-01T10:01:00.000001Z''\<rparr>"

definition llm_call_example :: model_call where
  "llm_call_example =
     \<lparr>mc_id = u ''c8'', mc_message_id = Some (u ''m9''), mc_model_type = Some (u ''LLM''),
      mc_model_id = Some (u ''rule-based-generate-reply-v1''), mc_duration_ms = Some 0,
      mc_raw_response_snippet = Some (take 200 billing_message),
      mc_created_at = u ''2024-01-01T10:01:00.000003Z''\<rparr>"

definition tts_call_example :: model_call where
  "tts_call_example =
     \<lparr>mc_id = u ''c9'', mc_message_id = Some (u ''m9''), mc_model_type = Some (u ''TTS''),
      mc_model_id = Some (u ''stub-tts''), mc_duration_ms = Some 2,
      mc_raw_response_snippet = Some (u ''media/reply_m9.wav''),
      mc_created_at = u ''2024-01-01T10:01:00.000004Z''\<rparr>"

definition video_req_example :: message_req where
  "video_req_example =
     \<lparr>req_type = u ''video'', req_text = Some (u ''hi''), req_audio_base64 = None,
      req_mime = None\<rparr>"

section \<open>Facts about strings\<close>

lemma contains_iff: "contains s kw \<longleftrightarrow> (\<exists>ps ss. s = ps @ kw @ ss)"
proof (induction s)
  case Nil
  show ?case by auto
next
  case (Cons x xs)
  show ?case
  proof
    assume "contains (x # xs) kw"
    then consider "take (length kw) (x # xs) = kw" | "contains xs kw" by auto
    then show "\<exists>ps ss. x # xs = ps @ kw @ ss"
    proof cases
      case 1
      have "x # xs = [] @ take (length kw) (x # xs) @ drop (length kw) (x # xs)" by simp
      with 1 show ?thesis by metis
    next
      case 2
      with Cons.IH obtain ps ss where "xs = ps @ kw @ ss" by blast
      then have "x # xs = (x # ps) @ kw @ ss" by simp
      then show ?thesis by blast
    qed
  next
    assume "\<exists>ps ss. x # xs = ps @ kw @ ss"
    then obtain ps ss where e: "x # xs = ps @ kw @ ss" by blast
    show "contains (x # xs) kw"
    proof (cases ps)
      case Nil
      with e have "take (length kw) (x # xs) = kw" by simp
      then show ?thesis by simp
    next
      case (Cons p ps')
      with e have "xs = ps' @ kw @ ss" by simp
      with Cons.IH have "contains xs kw" by blast
      then show ?thesis by simp
    qed
  qed
qed

lemma contains_map:
  assumes "contains s kw"
  shows "contains (map f s) (map f kw)"
proof -
  from assms obtain ps ss where "s = ps @ kw @ ss" unfolding contains_iff by blast
  then have "map f s = map f ps @ map f kw @ map f ss" by simp
  then show ?thesis unfolding contains_iff by blast
qed

lemma contains_rev: "contains (rev s) (rev kw) \<longleftrightarrow> contains s kw"
proof -
  have a: "contains (rev t) (rev k)" if "contains t k" for t k :: "'a list"
  proof -
    from that obtain ps ss where "t = ps @ k @ ss" unfolding contains_iff by blast
    then have "rev t = rev ss @ rev k @ rev ps" by simp
    then show ?thesis unfolding contains_iff by blast
  qed
  show ?thesis using a [of s kw] a [of "rev s" "rev kw"] by auto
qed

lemma contains_drop_prefix:
  assumes w: "\<forall>c\<in>set w. P c" and k: "kw \<noteq> []" "\<not> P (hd kw)"
    and c: "contains (w @ r) kw"
  shows "contains r kw"
proof -
  from c obtain ps ss where e: "w @ r = ps @ kw @ ss" unfolding contains_iff by blast
  then obtain us where "(w = ps @ us \<and> us @ r = kw @ ss) \<or> (w @ us = ps \<and> r = us @ kw @ ss)"
    by (auto simp: append_eq_append_conv2)
  then show ?thesis
  proof
    assume h: "w = ps @ us \<and> us @ r = kw @ ss"
    show ?thesis
    proof (cases us)
      case Nil
      with h have "r = [] @ kw @ ss" by simp
      then show ?thesis unfolding contains_iff by blast
    next
      case (Cons a as)
      with h k have "hd kw = a" by (cases kw) auto
      moreover from h Cons have "a \<in> set w" by simp
      ultimately show ?thesis using w k by blast
    qed
  next
    assume "w @ us = ps \<and> r = us @ kw @ ss"
    then show ?thesis unfolding contains_iff by blast
  qed
qed

lemma contains_dropWhile:
  assumes "kw \<noteq> []" "\<not> P (hd kw)"
  shows "contains (dropWhile P s) kw \<longleftrightarrow> contains s kw"
proof
  assume "contains (dropWhile P s) kw"
  then obtain ps ss where "dropWhile P s = ps @ kw @ ss" unfolding contains_iff by blast
  then have "takeWhile P s @ dropWhile P s = (takeWhile P s @ ps) @ kw @ ss" by simp
  then have "s = (takeWhile P s @ ps) @ kw @ ss" by simp
  then show "contains s kw" unfolding contains_iff by blast
next
  assume "contains s kw"
  then have "contains (takeWhile P s @ dropWhile P s) kw" by simp
  moreover have "\<forall>c\<in>set (takeWhile P s). P c" by (auto dest: set_takeWhileD)
  ultimately show "contains (dropWhile P s) kw"
    using assms contains_drop_prefix by blast
qed

lemma contains_strip:
  assumes "kw \<noteq> []" "\<not> isspace (hd kw)" "\<not> isspace (last kw)"
  shows "contains (strip s) kw \<longleftrightarrow> contains s kw"
proof -
  have r: "rev kw \<noteq> []" "\<not> isspace (hd (rev kw))"
    using assms by (simp_all add: hd_rev)
  have "contains (strip s) kw \<longleftrightarrow> contains (dropWhile isspace (rev (dropWhile isspace s))) (rev kw)"
    unfolding strip_def using contains_rev [of "rev (dropWhile isspace (rev (dropWhile isspace s)))" kw]
    by simp
  also have "\<dots> \<longleftrightarrow> contains (rev (dropWhile isspace s)) (rev kw)"
    using contains_dropWhile [of "rev kw" isspace, OF r] .
  also have "\<dots> \<longleftrightarrow> contains (dropWhile isspace s) kw"
    by (rule contains_rev)
  also have "\<dots> \<longleftrightarrow> contains s kw"
    using contains_dropWhile [of kw isspace, OF assms(1,2)] .
  finally show ?thesis .
qed

lemma strip_empty_iff: "strip s = [] \<longleftrightarrow> (\<forall>c\<in>set s. isspace c)"
proof -
  let ?d = "dropWhile isspace s"
  have "strip s = [] \<longleftrightarrow> (\<forall>c\<in>set ?d. isspace c)"
    unfolding strip_def by (simp add: dropWhile_eq_Nil_conv)
  also have "\<dots> \<longleftrightarrow> ?d = []"
  proof
    assume a: "\<forall>c\<in>set ?d. isspace c"
    show "?d = []"
    proof (rule ccontr)
      assume n: "?d \<noteq> []"
      then have "\<not> isspace (hd ?d)" by (rule hd_dropWhile)
      moreover from n have "hd ?d \<in> set ?d" by simp
      ultimately show False using a by blast
    qed
  qed (auto dest: set_dropWhileD)
  also have "\<dots> \<longleftrightarrow> (\<forall>c\<in>set s. isspace c)"
    by (simp add: dropWhile_eq_Nil_conv)
  finally show ?thesis .
qed

lemma lower_from_append:
  "lower_from tab s i (xs @ ys) = lower_from tab s i xs @ lower_from tab s (i + length xs) ys"
  by (induction xs arbitrary: i) simp_all

lemma lower_from_fixed:
  assumes "\<forall>c\<in>set kw. c < 256 \<and> lower_cp c = c"
  shows "lower_from tab s i kw = kw"
  using assms by (induction kw arbitrary: i) simp_all

lemma lower_fixes:
  assumes "\<forall>c\<in>set kw. c < 256 \<and> lower_cp c = c" and "contains t kw"
  shows "contains (lower tab t) kw"
proof -
  from assms(2) obtain ps ss where "t = ps @ kw @ ss" unfolding contains_iff by blast
  moreover have "lower_from tab s 0 (ps @ kw @ ss)
      = lower_from tab s 0 ps @ kw @ lower_from tab s (length ps + length kw) ss" for s
    by (simp add: lower_from_append lower_from_fixed [OF assms(1)] add.assoc)
  ultimately have "lower tab t
      = lower_from tab t 0 ps @ kw @ lower_from tab t (length ps + length kw) ss"
    unfolding lower_def by metis
  then show ?thesis unfolding contains_iff by blast
qed

lemma keyword_facts:
  "u ''refund'' \<noteq> []" "\<not> isspace (hd (u ''refund''))" "\<not> isspace (last (u ''refund''))"
  "u ''money back'' \<noteq> []" "\<not> isspace (hd (u ''money back''))" "\<not> isspace (last (u ''money back''))"
  "u ''bill'' \<noteq> []" "\<not> isspace (hd (u ''bill''))" "\<not> isspace (last (u ''bill''))"
  "u ''charge'' \<noteq> []" "\<not> isspace (hd (u ''charge''))" "\<not> isspace (last (u ''charge''))"
  "u ''charges'' \<noteq> []" "\<not> isspace (hd (u ''charges''))" "\<not> isspace (last (u ''charges''))"
  "u ''amount'' \<noteq> []" "\<not> isspace (hd (u ''amount''))" "\<not> isspace (last (u ''amount''))"
  "u ''invoice'' \<noteq> []" "\<not> isspace (hd (u ''invoice''))" "\<not> isspace (last (u ''invoice''))"
  "u ''fees'' \<noteq> []" "\<not> isspace (hd (u ''fees''))" "\<not> isspace (last (u ''fees''))"
  "u ''fee'' \<noteq> []" "\<not> isspace (hd (u ''fee''))" "\<not> isspace (last (u ''fee''))"
  by (simp_all add: u_def isspace_def)

lemma messages_distinct:
  "distinct [ask_repeat_message, refund_message, billing_message, fallback_message]"
  by (simp add: ask_repeat_message_def refund_message_def billing_message_def
      fallback_message_def u_def)

lemma refund_not_blank:
  assumes "contains t (u ''refund'')"
  shows "t \<noteq> []" "\<not> (\<forall>c\<in>set t. isspace c)"
proof -
  from assms obtain ps ss where e: "t = ps @ u ''refund'' @ ss" unfolding contains_iff by blast
  then show "t \<noteq> []" by (simp add: u_def)
  from e have "114 \<in> set t" by (simp add: u_def)
  moreover have "\<not> isspace 114" by (simp add: isspace_def)
  ultimately show "\<not> (\<forall>c\<in>set t. isspace c)" by blast
qed

section \<open>The responder: first match wins\<close>

text \<open>
  C2. For every input, and whatever the case tables of the runtime are, the responder
  returns one of four fixed, pairwise different messages, by the first rule that matches: empty or white-space-only input gives the
  ask-to-repeat message; otherwise the lowercased text containing "refund" or "money back"
  gives the refund message; otherwise the lowercased text containing one of "bill",
  "charge", "charges", "amount", "invoice", "fees", "fee" gives the billing message;
  otherwise the fallback message. A text that contains both "refund" and "bill" gets the
  refund message.
\<close>

theorem generate_reply_first_match:
  "generate_reply tab t =
     (if t = [] \<or> (\<forall>c\<in>set t. isspace c) then ask_repeat_message
      else if contains (lower tab t) (u ''refund'') \<or> contains (lower tab t) (u ''money back'')
        then refund_message
      else if contains (lower tab t) (u ''bill'') \<or> contains (lower tab t) (u ''charge'')
            \<or> contains (lower tab t) (u ''charges'') \<or> contains (lower tab t) (u ''amount'')
            \<or> contains (lower tab t) (u ''invoice'') \<or> contains (lower tab t) (u ''fees'')
            \<or> contains (lower tab t) (u ''fee'')
        then billing_message
      else fallback_message)
   \<and> distinct [ask_repeat_message, refund_message, billing_message, fallback_message]
   \<and> (contains t (u ''refund'') \<and> contains t (u ''bill'') \<longrightarrow> generate_reply tab t = refund_message)"
proof -
  have main: "generate_reply tab t =
     (if t = [] \<or> (\<forall>c\<in>set t. isspace c) then ask_repeat_message
      else if contains (lower tab t) (u ''refund'') \<or> contains (lower tab t) (u ''money back'')
        then refund_message
      else if contains (lower tab t) (u ''bill'') \<or> contains (lower tab t) (u ''charge'')
            \<or> contains (lower tab t) (u ''charges'') \<or> contains (lower tab t) (u ''amount'')
            \<or> contains (lower tab t) (u ''invoice'') \<or> contains (lower tab t) (u ''fees'')
            \<or> contains (lower tab t) (u ''fee'')
        then billing_message
      else fallback_message)"
    unfolding generate_reply_def Let_def truthy_str_def
    by (simp only: contains_strip [OF keyword_facts(1-3)] contains_strip [OF keyword_facts(4-6)]
        contains_strip [OF keyword_facts(7-9)] contains_strip [OF keyword_facts(10-12)]
        contains_strip [OF keyword_facts(13-15)] contains_strip [OF keyword_facts(16-18)]
        contains_strip [OF keyword_facts(19-21)] contains_strip [OF keyword_facts(22-24)]
        contains_strip [OF keyword_facts(25-27)] strip_empty_iff not_not)
  have particular: "generate_reply tab t = refund_message"
    if c: "contains t (u ''refund'')"
  proof -
    have "\<forall>c\<in>set (u ''refund''). c < 256 \<and> lower_cp c = c"
      by (simp add: u_def lower_cp_def)
    then have "contains (lower tab t) (u ''refund'')" using c by (rule lower_fixes)
    with refund_not_blank [OF c] show ?thesis by (simp only: main) simp
  qed
  from main messages_distinct particular show ?thesis by blast
qed

theorem generate_reply_first_match_witness:
  "generate_reply case_map_example (u ''Refund my bill'') = refund_message
   \<and> generate_reply case_map_example (u ''Mera bill bahut zyada aaya hai'') = billing_message
   \<and> generate_reply case_map_example (u ''   '') = ask_repeat_message
   \<and> generate_reply case_map_example (u ''hello'') = fallback_message
   \<and> generate_reply case_map_example (u ''money bac'' @ [8490]) = refund_message"
proof -
  have a: "generate_reply case_map_example (u ''Refund my bill'') = refund_message"
    using generate_reply_first_match [of case_map_example "u ''Refund my bill''"]
    by (simp add: u_def lower_def lower_cp_def isspace_def)
  have b: "generate_reply case_map_example (u ''Mera bill bahut zyada aaya hai'') = billing_message"
    using generate_reply_first_match [of case_map_example "u ''Mera bill bahut zyada aaya hai''"]
    by (simp add: u_def lower_def lower_cp_def isspace_def)
  have c: "generate_reply case_map_example (u ''   '') = ask_repeat_message"
    using generate_reply_first_match [of case_map_example "u ''   ''"]
    by (simp add: u_def isspace_def)
  have d: "generate_reply case_map_example (u ''hello'') = fallback_message"
    using generate_reply_first_match [of case_map_example "u ''hello''"]
    by (simp add: u_def lower_def lower_cp_def isspace_def)
  have e: "generate_reply case_map_example (u ''money bac'' @ [8490]) = refund_message"
    using generate_reply_first_match [of case_map_example "u ''money bac'' @ [8490]"]
    by (simp add: u_def lower_def lower_cp_def isspace_def case_map_example_def)
  from a b c d e show ?thesis by blast
qed

section \<open>Facts about the store\<close>

lemma one_or_none_unique:
  assumes "distinct (map key rows)" "r \<in> set rows"
  shows "one_or_none (filter (\<lambda>x. key x = key r) rows) = Inr (Some r)"
proof -
  have "filter (\<lambda>x. key x = key r) rows = [r]"
    using assms
  proof (induction rows)
    case Nil
    then show ?case by simp
  next
    case (Cons a rows)
    show ?case
    proof (cases "a = r")
      case True
      with Cons.prems have "\<forall>x\<in>set rows. key x \<noteq> key r" by (auto simp: image_iff)
      then have "filter (\<lambda>x. key x = key r) rows = []" by (simp add: filter_empty_conv)
      with True show ?thesis by simp
    next
      case False
      with Cons.prems have "r \<in> set rows" "key a \<noteq> key r" by (auto simp: image_iff)
      with Cons show ?thesis by simp
    qed
  qed
  then show ?thesis by (simp add: one_or_none_def)
qed

lemma filter_key_le_one:
  assumes "distinct (map key rows)"
  shows "filter (\<lambda>x. k = Some (key x) \<and> Q x) rows = [] \<or> (\<exists>r. filter (\<lambda>x. k = Some (key x) \<and> Q x) rows = [r])"
  using assms
proof (induction rows)
  case Nil
  then show ?case by simp
next
  case (Cons a rows)
  show ?case
  proof (cases "k = Some (key a) \<and> Q a")
    case True
    with Cons.prems have "\<forall>x\<in>set rows. k \<noteq> Some (key x)" by (auto simp: image_iff)
    then have "filter (\<lambda>x. k = Some (key x) \<and> Q x) rows = []" by (simp add: filter_empty_conv)
    with True show ?thesis by simp
  next
    case False
    with Cons show ?thesis by auto
  qed
qed

lemma join_once:
  assumes "distinct (map key ms)"
  shows "concat (map (\<lambda>mc. map (\<lambda>m. mc) (filter (\<lambda>m. fk mc = Some (key m) \<and> Q m) ms)) mcs)
       = filter (\<lambda>mc. \<exists>m\<in>set ms. fk mc = Some (key m) \<and> Q m) mcs"
proof (induction mcs)
  case Nil
  show ?case by simp
next
  case (Cons mc mcs)
  from filter_key_le_one [OF assms, of "fk mc" Q]
  consider "filter (\<lambda>m. fk mc = Some (key m) \<and> Q m) ms = []"
    | r where "filter (\<lambda>m. fk mc = Some (key m) \<and> Q m) ms = [r]" by blast
  then show ?case
  proof cases
    case 1
    then have "\<not> (\<exists>m\<in>set ms. fk mc = Some (key m) \<and> Q m)" by (simp add: filter_empty_conv)
    with 1 Cons show ?thesis by simp
  next
    case 2
    then have "r \<in> set (filter (\<lambda>m. fk mc = Some (key m) \<and> Q m) ms)" by simp
    then have "\<exists>m\<in>set ms. fk mc = Some (key m) \<and> Q m" by auto
    with 2 Cons show ?thesis by simp
  qed
qed

lemma join_set:
  "set (concat (map (\<lambda>mc. map (\<lambda>m. mc) (filter (\<lambda>m. P mc m) ms)) mcs))
     = {mc \<in> set mcs. \<exists>m\<in>set ms. P mc m}"
  by (auto simp: image_iff)


section \<open>Conversation read-back\<close>

lemma order_by_sort_key: "order_by key rows (sort_key key rows)"
  by (simp add: order_by_def)

lemma get_conversation_returns: "\<exists>outcome. get_conversation db sid outcome"
proof (cases "one_or_none (filter (\<lambda>s. sess_id s = sid) (sessions db))")
  case (Inl e)
  then show ?thesis by (simp add: get_conversation_def)
next
  case (Inr r)
  show ?thesis
  proof (cases r)
    case None
    with Inr show ?thesis by (simp add: get_conversation_def)
  next
    case (Some session_obj)
    let ?c = "\<lparr>conv_session = session_obj,
       conv_messages = sort_key msg_created_at (filter (\<lambda>m. msg_session_id m = sid) (messages db)),
       conv_crm_records =
         sort_key crm_created_at (filter (\<lambda>r. crm_session_id r = Some sid) (crm_records db)),
       conv_tool_calls =
         sort_key tc_created_at (filter (\<lambda>t. tc_session_id t = Some sid) (tool_calls db)),
       conv_model_calls = sort_key mc_created_at
         (concat (map (\<lambda>mc. map (\<lambda>m. mc)
            (filter (\<lambda>m. mc_message_id mc = Some (msg_id m) \<and> msg_session_id m = sid) (messages db)))
            (model_calls db)))\<rparr>"
    have "get_conversation db sid (Inr ?c, db)"
      using Inr Some by (simp add: get_conversation_def order_by_sort_key)
    then show ?thesis by blast
  qed
qed

lemma get_conversation_not_found:
  assumes "get_conversation db sid outcome" "sid \<notin> set (map sess_id (sessions db))"
  shows "outcome = (Inl (HTTPException 404 (u ''session not found'')), db)"
proof -
  have "filter (\<lambda>s. sess_id s = sid) (sessions db) = []"
    using assms(2) by (auto simp: filter_empty_conv)
  with assms(1) show ?thesis by (simp add: get_conversation_def one_or_none_def)
qed

lemma get_conversation_read_only:
  assumes "get_conversation db sid outcome"
  shows "snd outcome = db"
proof (cases "one_or_none (filter (\<lambda>s. sess_id s = sid) (sessions db))")
  case (Inl e)
  with assms show ?thesis by (simp add: get_conversation_def)
next
  case (Inr r)
  with assms show ?thesis by (cases r) (simp_all add: get_conversation_def)
qed

lemma get_conversation_by_column:
  assumes g: "get_conversation db sid outcome"
    and d: "distinct (map sess_id (sessions db))" and m: "s \<in> set (sessions db)" "sess_id s = sid"
  shows "\<exists>c. outcome = (Inr c, db)
         \<and> conv_session c = s
         \<and> mset (conv_messages c) = mset (filter (\<lambda>m. msg_session_id m = sid) (messages db))
         \<and> sorted (map msg_created_at (conv_messages c))
         \<and> mset (conv_crm_records c)
             = mset (filter (\<lambda>r. crm_session_id r = Some sid) (crm_records db))
         \<and> sorted (map crm_created_at (conv_crm_records c))
         \<and> mset (conv_tool_calls c)
             = mset (filter (\<lambda>t. tc_session_id t = Some sid) (tool_calls db))
         \<and> sorted (map tc_created_at (conv_tool_calls c))
         \<and> set (conv_model_calls c)
             = {mc \<in> set (model_calls db).
                  \<exists>m\<in>set (messages db). mc_message_id mc = Some (msg_id m) \<and> msg_session_id m = sid}
         \<and> (distinct (map msg_id (messages db)) \<longrightarrow>
              mset (conv_model_calls c)
                = mset (filter (\<lambda>mc. \<exists>m\<in>set (messages db).
                           mc_message_id mc = Some (msg_id m) \<and> msg_session_id m = sid)
                         (model_calls db)))
         \<and> sorted (map mc_created_at (conv_model_calls c))"
proof -
  have one: "one_or_none (filter (\<lambda>x. sess_id x = sid) (sessions db)) = Inr (Some s)"
    using one_or_none_unique [of sess_id "sessions db" s] d m by auto
  have g': "snd outcome = db \<and>
          (case fst outcome of
             Inl e \<Rightarrow> False
           | Inr c \<Rightarrow>
               conv_session c = s
               \<and> order_by msg_created_at
                    (filter (\<lambda>m. msg_session_id m = sid) (messages db))
                    (conv_messages c)
               \<and> order_by crm_created_at
                    (filter (\<lambda>c. crm_session_id c = Some sid) (crm_records db))
                    (conv_crm_records c)
               \<and> order_by tc_created_at
                    (filter (\<lambda>t. tc_session_id t = Some sid) (tool_calls db))
                    (conv_tool_calls c)
               \<and> order_by mc_created_at
                    (concat (map (\<lambda>mc.
                       map (\<lambda>m. mc)
                         (filter (\<lambda>m. mc_message_id mc = Some (msg_id m)
                                       \<and> msg_session_id m = sid) (messages db)))
                       (model_calls db)))
                    (conv_model_calls c))"
    using g unfolding get_conversation_def one by (simp only: sum.case option.case)
  then obtain c where f: "fst outcome = Inr c"
    by (cases "fst outcome") simp_all
  from g' have "snd outcome = db" by (rule conjunct1)
  with f have o: "outcome = (Inr c, db)" by (cases outcome) simp
  from g' have "conv_session c = s
               \<and> order_by msg_created_at
                    (filter (\<lambda>m. msg_session_id m = sid) (messages db))
                    (conv_messages c)
               \<and> order_by crm_created_at
                    (filter (\<lambda>c. crm_session_id c = Some sid) (crm_records db))
                    (conv_crm_records c)
               \<and> order_by tc_created_at
                    (filter (\<lambda>t. tc_session_id t = Some sid) (tool_calls db))
                    (conv_tool_calls c)
               \<and> order_by mc_created_at
                    (concat (map (\<lambda>mc.
                       map (\<lambda>m. mc)
                         (filter (\<lambda>m. mc_message_id mc = Some (msg_id m)
                                       \<and> msg_session_id m = sid) (messages db)))
                       (model_calls db)))
                    (conv_model_calls c)"
    unfolding f by (simp only: sum.case)
  then have cs: "conv_session c = s"
    and cm: "order_by msg_created_at (filter (\<lambda>m. msg_session_id m = sid) (messages db))
               (conv_messages c)"
    and cr: "order_by crm_created_at (filter (\<lambda>r. crm_session_id r = Some sid) (crm_records db))
               (conv_crm_records c)"
    and ct: "order_by tc_created_at (filter (\<lambda>t. tc_session_id t = Some sid) (tool_calls db))
               (conv_tool_calls c)"
    and cc: "order_by mc_created_at
              (concat (map (\<lambda>mc. map (\<lambda>m. mc)
                 (filter (\<lambda>m. mc_message_id mc = Some (msg_id m) \<and> msg_session_id m = sid) (messages db)))
                 (model_calls db)))
              (conv_model_calls c)"
    by blast+
  have j: "mset (conv_model_calls c)
             = mset (filter (\<lambda>mc. \<exists>m\<in>set (messages db).
                        mc_message_id mc = Some (msg_id m) \<and> msg_session_id m = sid)
                      (model_calls db))"
    if "distinct (map msg_id (messages db))"
    using join_once [OF that, of mc_message_id "\<lambda>m. msg_session_id m = sid" "model_calls db"] cc
    by (simp add: order_by_def)
  have "set (conv_model_calls c) = set_mset (mset (conv_model_calls c))" by simp
  also have "\<dots> = set (concat (map (\<lambda>mc. map (\<lambda>m. mc)
                 (filter (\<lambda>m. mc_message_id mc = Some (msg_id m) \<and> msg_session_id m = sid) (messages db)))
                 (model_calls db)))"
    using cc unfolding order_by_def by simp
  also have "\<dots> = {mc \<in> set (model_calls db).
                  \<exists>m\<in>set (messages db). mc_message_id mc = Some (msg_id m) \<and> msg_session_id m = sid}"
    by (rule join_set)
  finally have js: "set (conv_model_calls c)
             = {mc \<in> set (model_calls db).
                  \<exists>m\<in>set (messages db). mc_message_id mc = Some (msg_id m) \<and> msg_session_id m = sid}" .
  show ?thesis
    apply (rule exI [of _ c])
    apply (intro conjI impI)
              apply (rule o)
             apply (rule cs)
            using cm apply (simp add: order_by_def)
           using cm apply (simp add: order_by_def)
          using cr apply (simp add: order_by_def)
         using cr apply (simp add: order_by_def)
        using ct apply (simp add: order_by_def)
       using ct apply (simp add: order_by_def)
      apply (rule js)
     apply (erule j)
    using cc apply (simp add: order_by_def)
    done
qed

lemma now_iso_examples:
  "now_iso dt_first_example = u ''2024-01-01T10:00:05Z''"
  "now_iso dt_later_example = u ''2024-01-01T10:00:05.500000Z''"
  by (simp_all add: now_iso_def isoformat_def dt_first_example_def dt_later_example_def
      digits2_def digits4_def digits6_def digit_def u_def)

text \<open>
  C8, at a failing input. A missing session gives 404, the four collections hold the rows
  of the session, and the store is not changed (\<open>get_conversation_not_found\<close>,
  \<open>get_conversation_by_column\<close>, \<open>get_conversation_read_only\<close>). But the collections
  are sorted by the \<open>created_at\<close> string, and \<open>now_iso\<close> leaves the fraction out at
  microsecond 0: a message created at 10:00:05.000000 is stamped "...T10:00:05Z", a message
  created half a second later "...T10:00:05.500000Z", and the later string is the smaller
  one. For a session with these two messages the only answer \<open>get_conversation\<close> has
  lists the later message first.
\<close>

theorem get_conversation_later_message_first:
  "dt_key dt_first_example < dt_key dt_later_example
   \<and> messages db_iso_example = [message_first_example, message_later_example]
   \<and> get_conversation db_iso_example (u ''s1'')
        (Inr \<lparr>conv_session = session_example,
              conv_messages = [message_later_example, message_first_example],
              conv_crm_records = [], conv_tool_calls = [], conv_model_calls = []\<rparr>,
         db_iso_example)
   \<and> \<not> get_conversation db_iso_example (u ''s1'')
        (Inr \<lparr>conv_session = session_example,
              conv_messages = [message_first_example, message_later_example],
              conv_crm_records = [], conv_tool_calls = [], conv_model_calls = []\<rparr>,
         db_iso_example)"
proof -
  have t: "dt_key dt_first_example < dt_key dt_later_example"
    by (simp add: dt_key_def dt_first_example_def dt_later_example_def)
  have m: "messages db_iso_example = [message_first_example, message_later_example]"
    by (simp add: db_iso_example_def)
  have one: "one_or_none (filter (\<lambda>s. sess_id s = u ''s1'') (sessions db_iso_example))
      = Inr (Some session_example)"
    by (simp add: db_iso_example_def session_example_def one_or_none_def u_def)
  have f: "filter (\<lambda>m. msg_session_id m = u ''s1'') (messages db_iso_example)
      = [message_first_example, message_later_example]"
    by (simp add: m message_first_example_def message_later_example_def message_example_def)
  have k: "msg_created_at message_first_example = u ''2024-01-01T10:00:05Z''"
    "msg_created_at message_later_example = u ''2024-01-01T10:00:05.500000Z''"
    by (simp_all add: message_first_example_def message_later_example_def message_example_def
        now_iso_examples)
  have lt: "u ''2024-01-01T10:00:05.500000Z'' < u ''2024-01-01T10:00:05Z''"
    by (simp add: u_def)
  have good: "order_by msg_created_at [message_first_example, message_later_example]
      [message_later_example, message_first_example]"
    using lt by (simp add: order_by_def k)
  have bad: "\<not> order_by msg_created_at [message_first_example, message_later_example]
      [message_first_example, message_later_example]"
    using lt by (simp add: order_by_def k)
  have rest: "crm_records db_iso_example = []" "tool_calls db_iso_example = []"
    "model_calls db_iso_example = []"
    by (simp_all add: db_iso_example_def)
  have g: "get_conversation db_iso_example (u ''s1'')
        (Inr \<lparr>conv_session = session_example,
              conv_messages = [message_later_example, message_first_example],
              conv_crm_records = [], conv_tool_calls = [], conv_model_calls = []\<rparr>,
         db_iso_example)"
    using good by (simp add: get_conversation_def one f rest order_by_def)
  have b: "\<not> get_conversation db_iso_example (u ''s1'')
        (Inr \<lparr>conv_session = session_example,
              conv_messages = [message_first_example, message_later_example],
              conv_crm_records = [], conv_tool_calls = [], conv_model_calls = []\<rparr>,
         db_iso_example)"
    using bad by (simp add: get_conversation_def one f rest)
  from t m g b show ?thesis by (intro conjI)
qed

section \<open>Facts about CRM intake\<close>

lemma missing_fields_set:
  "set (missing_fields rec) =
     {f \<in> set required_fields. rec f = None \<or> (\<exists>v. rec f = Some v \<and> \<not> truthy v)}"
  by (auto simp: missing_fields_def split: option.splits)

lemma missing_fields_absent:
  assumes "\<forall>f v. rec f = Some v \<longrightarrow> truthy v"
  shows "missing_fields rec = filter (\<lambda>f. rec f = None) required_fields"
  unfolding missing_fields_def
  by (rule filter_cong) (use assms in \<open>auto split: option.splits\<close>)

lemma mcp_handler_missing:
  assumes "p_scenario payload = Some (u ''billing_query'')"
    and "missing_fields (or_dict (p_crm_record payload)) \<noteq> []"
  shows "mcp_handler env db payload =
     (Inl (HTTPException 400
        (u ''Missing crm_record fields: '' @ repr_list (missing_fields (or_dict (p_crm_record payload))))),
      db)"
proof -
  have "truthy_opt (p_scenario payload)"
    using assms(1) by (simp add: truthy_opt_def truthy_str_def u_def)
  with assms show ?thesis by (simp add: mcp_handler_def)
qed


lemma repr_phone: "repr_list [u ''phone''] = u ''['phone']''"
  by (simp add: repr_list_def u_def)






lemma required_fields_plain: "\<forall>f\<in>set required_fields. 39 \<notin> set f"
  by (simp add: required_fields_def u_def)



section \<open>CRM intake: validation\<close>



lemma missing_fields_drop_falsy:
  assumes "rec f = Some v" "\<not> truthy v"
  shows "missing_fields (rec(f := None)) = missing_fields rec"
  unfolding missing_fields_def
  by (rule filter_cong) (use assms in \<open>auto split: option.splits\<close>)

text \<open>
  C10. With scenario "billing_query", a required field that is present with a value that
  Python counts as false (the empty string, null, 0, false) is listed as missing, and the
  call fails exactly as it does for the record without that key: same status, same detail,
  same store. A record with "phone": "" fails with the detail
  "Missing crm_record fields: ['phone']".
\<close>

theorem falsy_field_counts_as_missing:
  "(p_scenario payload = Some (u ''billing_query'') \<and> p_crm_record payload = Some rec
      \<and> f \<in> set required_fields \<and> rec f = Some v
      \<and> v \<in> {JStr [], JNull, JInt 0, JBool False} \<longrightarrow>
      f \<in> set (missing_fields rec)
      \<and> mcp_handler env db payload =
          (Inl (HTTPException 400
             (u ''Missing crm_record fields: '' @ repr_list (missing_fields rec))), db)
      \<and> mcp_handler env db payload =
          mcp_handler env db (payload\<lparr>p_crm_record := Some (rec(f := None))\<rparr>))
   \<and> (p_scenario payload = Some (u ''billing_query'') \<and> p_crm_record payload = Some rec
      \<and> rec (u ''phone'') = Some (JStr [])
      \<and> (\<forall>g\<in>set required_fields. g \<noteq> u ''phone'' \<longrightarrow> (\<exists>w. rec g = Some w \<and> truthy w)) \<longrightarrow>
      mcp_handler env db payload =
        (Inl (HTTPException 400 (u ''Missing crm_record fields: ['phone']'')), db))"
proof (intro conjI impI)
  assume a: "p_scenario payload = Some (u ''billing_query'') \<and> p_crm_record payload = Some rec
      \<and> f \<in> set required_fields \<and> rec f = Some v
      \<and> v \<in> {JStr [], JNull, JInt 0, JBool False}"
  then have nv: "\<not> truthy v" by auto
  with a show m: "f \<in> set (missing_fields rec)"
    unfolding missing_fields_set by blast
  then have ne: "missing_fields (or_dict (p_crm_record payload)) \<noteq> []"
    using a by (auto simp: or_dict_def)
  from a have r: "or_dict (p_crm_record payload) = rec" by (simp add: or_dict_def)
  show h: "mcp_handler env db payload =
          (Inl (HTTPException 400
             (u ''Missing crm_record fields: '' @ repr_list (missing_fields rec))), db)"
    using mcp_handler_missing [of payload env db] a ne r by simp
  let ?q = "payload\<lparr>p_crm_record := Some (rec(f := None))\<rparr>"
  have d: "missing_fields (rec(f := None)) = missing_fields rec"
    using a nv missing_fields_drop_falsy by blast
  have "mcp_handler env db ?q =
          (Inl (HTTPException 400
             (u ''Missing crm_record fields: ''
                @ repr_list (missing_fields (or_dict (p_crm_record ?q))))), db)"
    using mcp_handler_missing [of ?q env db] a ne r d by (simp add: or_dict_def)
  with h d show "mcp_handler env db payload = mcp_handler env db ?q"
    by (simp add: or_dict_def)
next
  assume a: "p_scenario payload = Some (u ''billing_query'') \<and> p_crm_record payload = Some rec
      \<and> rec (u ''phone'') = Some (JStr [])
      \<and> (\<forall>g\<in>set required_fields. g \<noteq> u ''phone'' \<longrightarrow> (\<exists>w. rec g = Some w \<and> truthy w))"
  then have r: "or_dict (p_crm_record payload) = rec" by (simp add: or_dict_def)
  have "\<exists>w. rec (u ''name'') = Some w \<and> truthy w" "\<exists>w. rec (u ''account_id'') = Some w \<and> truthy w"
    "\<exists>w. rec (u ''query'') = Some w \<and> truthy w" "\<exists>w. rec (u ''intent'') = Some w \<and> truthy w"
    "\<exists>w. rec (u ''priority'') = Some w \<and> truthy w"
    using a by (simp_all add: required_fields_def u_def)
  with a have m: "missing_fields rec = [u ''phone'']"
    by (auto simp: missing_fields_def required_fields_def)
  have "u ''Missing crm_record fields: '' @ repr_list [u ''phone'']
          = u ''Missing crm_record fields: ['phone']''"
    by (simp add: repr_phone) (simp add: u_def)
  with m r a mcp_handler_missing [of payload env db]
  show "mcp_handler env db payload =
        (Inl (HTTPException 400 (u ''Missing crm_record fields: ['phone']'')), db)"
    by simp
qed

theorem falsy_field_counts_as_missing_witness:
  "mcp_handler mcp_env_example db_read_example
      (payload_example (record_example(u ''phone'' \<mapsto> JStr [])))
     = (Inl (HTTPException 400 (u ''Missing crm_record fields: ['phone']'')), db_read_example)
   \<and> mcp_handler mcp_env_example db_read_example
      (payload_example (record_example(u ''priority'' \<mapsto> JInt 0)))
     = mcp_handler mcp_env_example db_read_example
      ((payload_example (record_example(u ''priority'' \<mapsto> JInt 0)))
         \<lparr>p_crm_record := Some ((record_example(u ''priority'' \<mapsto> JInt 0))(u ''priority'' := None))\<rparr>)"
proof -
  let ?r = "record_example(u ''phone'' \<mapsto> JStr [])"
  let ?p = "payload_example ?r"
  let ?s = "record_example(u ''priority'' \<mapsto> JInt 0)"
  let ?q = "payload_example ?s"
  have a: "p_scenario ?p = Some (u ''billing_query'') \<and> p_crm_record ?p = Some ?r
      \<and> ?r (u ''phone'') = Some (JStr [])
      \<and> (\<forall>g\<in>set required_fields. g \<noteq> u ''phone'' \<longrightarrow> (\<exists>w. ?r g = Some w \<and> truthy w))"
    by (simp add: payload_example_def record_example_def required_fields_def u_def)
  have b: "p_scenario ?q = Some (u ''billing_query'') \<and> p_crm_record ?q = Some ?s
      \<and> u ''priority'' \<in> set required_fields \<and> ?s (u ''priority'') = Some (JInt 0)
      \<and> JInt 0 \<in> {JStr [], JNull, JInt 0, JBool False}"
    by (simp add: payload_example_def required_fields_def)
  from a falsy_field_counts_as_missing [of ?p ?r _ _ mcp_env_example db_read_example]
  have 1: "mcp_handler mcp_env_example db_read_example ?p
     = (Inl (HTTPException 400 (u ''Missing crm_record fields: ['phone']'')), db_read_example)"
    by blast
  from b falsy_field_counts_as_missing [of ?q ?s "u ''priority''" "JInt 0" mcp_env_example db_read_example]
  have 2: "mcp_handler mcp_env_example db_read_example ?q
     = mcp_handler mcp_env_example db_read_example
         (?q\<lparr>p_crm_record := Some (?s(u ''priority'' := None))\<rparr>)"
    by blast
  from 1 2 show ?thesis by (rule conjI)
qed


lemma commit_Inr:
  assumes "commit st rows db = Inr db'"
  shows "db' = foldl insert_row db rows"
  using assms by (auto simp: commit_def split: option.splits if_splits)

lemma mcp_handler_valid:
  assumes "truthy_opt (p_scenario payload)"
    and "p_scenario payload = Some (u ''billing_query'') \<longrightarrow>
           missing_fields (or_dict (p_crm_record payload)) = []"
    and "one_or_none (filter (\<lambda>s. sess_id s = p_session_id payload) (sessions db))
           = Inr (Some session_row)"
  shows "mcp_handler env db payload =
     (case commit (commit_first env)
             [CRMRecordRow (mcp_crm_row env payload session_row),
              ToolCallRow (mcp_tool_row env payload)] db of
        Inr db' \<Rightarrow>
          (Inr \<lparr>r_ok = True, r_status = Some (u ''accepted''),
                r_crm_record_id = uuid_crm env, r_tool_call_id = uuid_tool env\<rparr>, db')
      | Inl e \<Rightarrow> (Inl (HTTPException 500 (u ''DB error: '' @ e)), db))"
proof (cases "commit (commit_first env)
             [CRMRecordRow (mcp_crm_row env payload session_row),
              ToolCallRow (mcp_tool_row env payload)] db")
  case (Inl e)
  with assms show ?thesis
    by (simp add: mcp_handler_def Let_def session_commit_def)
next
  case (Inr db')
  with assms show ?thesis
    by (simp add: mcp_handler_def Let_def session_commit_def)
       (simp add: mcp_crm_row_def mcp_tool_row_def)
qed

lemma mcp_handler_stores_both_or_nothing:
  assumes "truthy_opt (p_scenario payload)"
    and "p_scenario payload = Some (u ''billing_query'') \<longrightarrow>
           missing_fields (or_dict (p_crm_record payload)) = []"
    and "one_or_none (filter (\<lambda>s. sess_id s = p_session_id payload) (sessions db))
           = Inr (Some session_row)"
  shows "mcp_handler env db payload =
           (Inr \<lparr>r_ok = True, r_status = Some (u ''accepted''),
                 r_crm_record_id = uuid_crm env, r_tool_call_id = uuid_tool env\<rparr>,
            db\<lparr>crm_records := crm_records db @ [mcp_crm_row env payload session_row],
               tool_calls := tool_calls db @ [mcp_tool_row env payload]\<rparr>)
         \<or> (\<exists>e. mcp_handler env db payload = (Inl (HTTPException 500 (u ''DB error: '' @ e)), db))"
proof (cases "commit (commit_first env)
             [CRMRecordRow (mcp_crm_row env payload session_row),
              ToolCallRow (mcp_tool_row env payload)] db")
  case (Inl e)
  then show ?thesis unfolding mcp_handler_valid [OF assms] by simp
next
  case (Inr db')
  from commit_Inr [OF Inr] Inr show ?thesis unfolding mcp_handler_valid [OF assms] by simp
qed

section \<open>CRM intake: persistence\<close>

text \<open>
  C6, at a failing input. A valid call commits the CRM record with status "pending" and
  the tool call with status "accepted" in one unit and answers with the status and both
  ids; when that commit fails with storage error \<open>e\<close> neither row is stored and the
  handler raises status 500 with detail "DB error: " followed by \<open>e\<close>
  (\<open>mcp_handler_stores_both_or_nothing\<close>). But the write that is to record the tool call
  as "failed" commits on the session whose commit has just failed, without a rollback, so
  it always raises and is dropped: for a valid call at which the storage engine loses the
  connection during the first commit and works again at the second, nothing is stored, and
  no tool call with status "failed" exists.
\<close>

theorem mcp_handler_failed_status_not_stored:
  "storage_fault (commit_second mcp_env_first_fails) = None
   \<and> mcp_handler mcp_env_first_fails db_read_example (payload_example record_example)
     = (Inl (HTTPException 500 (u ''DB error: connection lost'')), db_read_example)
   \<and> tool_calls db_read_example = []"
proof -
  let ?p = "payload_example record_example"
  have h1: "truthy_opt (p_scenario ?p)"
    by (simp add: payload_example_def truthy_opt_def truthy_str_def u_def)
  have h2: "p_scenario ?p = Some (u ''billing_query'') \<longrightarrow>
           missing_fields (or_dict (p_crm_record ?p)) = []"
    by (simp add: payload_example_def or_dict_def missing_fields_def required_fields_def
        record_example_def u_def)
  have h3: "one_or_none (filter (\<lambda>s. sess_id s = p_session_id ?p) (sessions db_read_example))
           = Inr (Some session_example)"
    by (simp add: payload_example_def db_read_example_def session_example_def one_or_none_def u_def)
  have c: "commit (commit_first mcp_env_first_fails) rows db_read_example
             = Inl (u ''connection lost'')" for rows
    by (simp add: commit_def mcp_env_first_fails_def storage_down_def)
  have d: "u ''DB error: '' @ u ''connection lost'' = u ''DB error: connection lost''"
    by (simp add: u_def)
  have "mcp_handler mcp_env_first_fails db_read_example ?p
     = (Inl (HTTPException 500 (u ''DB error: connection lost'')), db_read_example)"
    unfolding mcp_handler_valid [OF h1 h2 h3] by (simp add: c d)
  moreover have "storage_fault (commit_second mcp_env_first_fails) = None"
    by (simp add: mcp_env_first_fails_def storage_ok_def)
  moreover have "tool_calls db_read_example = []"
    by (simp add: db_read_example_def)
  ultimately show ?thesis by (intro conjI)
qed

section \<open>Facts about the message post\<close>

lemma type_names: "u ''text'' \<noteq> u ''audio''"
  by (simp add: u_def)

lemma stages_dispatch:
  "choose_asr_source (env\<lparr>dispatch := d\<rparr>) p msg = choose_asr_source env p msg"
  "run_asr (env\<lparr>dispatch := d\<rparr>) src mime = run_asr env src mime"
  "run_tts (env\<lparr>dispatch := d\<rparr>) reply mid = run_tts env reply mid"
  "save_incoming_audio (env\<lparr>dispatch := d\<rparr>) i msg = save_incoming_audio env i msg"
proof -
  show "choose_asr_source (env\<lparr>dispatch := d\<rparr>) p msg = choose_asr_source env p msg"
    by (simp add: choose_asr_source_def)
  show "run_asr (env\<lparr>dispatch := d\<rparr>) src mime = run_asr env src mime"
    by (simp add: run_asr_def split: asr_source.splits option.splits)
  show "run_tts (env\<lparr>dispatch := d\<rparr>) reply mid = run_tts env reply mid"
    by (simp add: run_tts_def split: option.splits)
  show "save_incoming_audio (env\<lparr>dispatch := d\<rparr>) i msg = save_incoming_audio env i msg"
    by (auto simp: save_incoming_audio_def Let_def split: option.splits)
qed

lemma run_stages_dispatch:
  "run_stages (env\<lparr>dispatch := d\<rparr>) msg row0 = run_stages env msg row0"
  by (simp add: run_stages_def stages_dispatch
      cong: sum.case_cong prod.case_cong if_cong)

lemma initial_message_row_dispatch:
  "initial_message_row (env\<lparr>dispatch := d\<rparr>) sid msg = initial_message_row env sid msg"
  by (simp add: initial_message_row_def stages_dispatch)

lemma post_message_bad_type:
  assumes "req_type msg \<noteq> u ''text''" "req_type msg \<noteq> u ''audio''"
  shows "post_message env db sid msg =
           (Inl (HTTPException 400 (u ''type must be 'text' or 'audio'' @ [39])), db)"
  using assms by (simp add: post_message_def)

lemma post_message_no_session:
  assumes "req_type msg = u ''text'' \<or> req_type msg = u ''audio''"
    and "sid \<notin> set (map sess_id (sessions db))"
  shows "post_message env db sid msg = (Inl (HTTPException 404 (u ''session not found'')), db)"
proof -
  have "filter (\<lambda>s. sess_id s = sid) (sessions db) = []"
    using assms(2) by (auto simp: filter_empty_conv)
  then show ?thesis
    using assms(1) by (auto simp: post_message_def one_or_none_def Let_def)
qed

lemma post_message_found:
  assumes "req_type msg = u ''text'' \<or> req_type msg = u ''audio''"
    and "one_or_none (filter (\<lambda>s. sess_id s = sid) (sessions db)) = Inr (Some s)"
  shows "post_message env db sid msg =
     (case run_stages env msg (initial_message_row env sid msg) of
        Inl e \<Rightarrow> (Inl e, db)
      | Inr (transcript, llm_reply, message_row, model_calls_to_save) \<Rightarrow>
          (case commit (post_commit env)
                  (MessageRow message_row # map ModelCallRow model_calls_to_save) db of
             Inl e \<Rightarrow> (Inl (StorageError e), db)
           | Inr db' \<Rightarrow>
               (Inr (post_summary sid message_row),
                snd (client_post (dispatch env) db' (crm_payload sid s llm_reply transcript)))))"
  using assms
  by (auto simp: post_message_def Let_def split: sum.splits prod.splits)

lemma run_stages_text:
  assumes "req_type msg = u ''text''"
  shows "run_stages env msg (initial_message_row env sid msg) =
     Inr (or_str (req_text msg) [],
          generate_reply (case_map env) (or_str (req_text msg) []),
          (initial_message_row env sid msg)
            \<lparr>msg_reply_text := Some (generate_reply (case_map env) (or_str (req_text msg) [])),
             msg_reply_audio_path_or_b64 :=
               run_tts env (generate_reply (case_map env) (or_str (req_text msg) [])) (Some (uuid_message env))\<rparr>,
          [\<lparr>mc_id = uuid_llm env,
            mc_message_id = Some (uuid_message env),
            mc_model_type = Some (u ''LLM''),
            mc_model_id = Some (u ''rule-based-generate-reply-v1''),
            mc_duration_ms = Some (llm_duration_ms env),
            mc_raw_response_snippet = Some (take 200 (generate_reply (case_map env) (or_str (req_text msg) []))),
            mc_created_at = now_llm env\<rparr>,
           \<lparr>mc_id = uuid_tts env,
            mc_message_id = Some (uuid_message env),
            mc_model_type = Some (u ''TTS''),
            mc_model_id = Some (u ''stub-tts''),
            mc_duration_ms = Some (tts_duration_ms env),
            mc_raw_response_snippet =
              map_option (take 200)
                (run_tts env (generate_reply (case_map env) (or_str (req_text msg) [])) (Some (uuid_message env))),
            mc_created_at = now_tts env\<rparr>])"
proof -
  have t: "or_str (Some (or_str (req_text msg) [])) [] = or_str (req_text msg) []"
    by (simp add: or_str_def truthy_str_def split: option.splits)
  show ?thesis
    using assms type_names
    by (simp add: run_stages_def initial_message_row_def Let_def t)
qed

lemma mcp_handler_tables:
  "sessions (snd (mcp_handler env db payload)) = sessions db
   \<and> messages (snd (mcp_handler env db payload)) = messages db
   \<and> model_calls (snd (mcp_handler env db payload)) = model_calls db"
  by (auto simp: mcp_handler_def Let_def session_commit_def
      split: sum.splits option.splits prod.splits tx_state.splits dest!: commit_Inr)

lemma client_post_tables:
  "sessions (snd (client_post d db payload)) = sessions db
   \<and> messages (snd (client_post d db payload)) = messages db
   \<and> model_calls (snd (client_post d db payload)) = model_calls db"
  using mcp_handler_tables
  by (simp add: client_post_def Let_def split: option.splits)


lemma or_str_Some_Nil: "or_str (Some t) [] = t"
  by (simp add: or_str_def truthy_str_def)

lemma run_stages_audio:
  assumes "req_type msg = u ''audio''"
  shows "run_stages env msg (initial_message_row env sid msg) =
     (case choose_asr_source env (save_incoming_audio env (uuid_message env) msg) msg of
        Inl e \<Rightarrow> Inl e
      | Inr asr_source \<Rightarrow>
          Inr (run_asr env asr_source (or_str (req_mime msg) (u ''audio/wav'')),
               generate_reply (case_map env) (run_asr env asr_source (or_str (req_mime msg) (u ''audio/wav''))),
               (initial_message_row env sid msg)
                 \<lparr>msg_transcript :=
                    Some (run_asr env asr_source (or_str (req_mime msg) (u ''audio/wav''))),
                  msg_reply_text :=
                    Some (generate_reply (case_map env)
                           (run_asr env asr_source (or_str (req_mime msg) (u ''audio/wav'')))),
                  msg_reply_audio_path_or_b64 :=
                    run_tts env
                      (generate_reply (case_map env)
                        (run_asr env asr_source (or_str (req_mime msg) (u ''audio/wav''))))
                      (Some (uuid_message env))\<rparr>,
               [\<lparr>mc_id = uuid_asr env,
                 mc_message_id = Some (uuid_message env),
                 mc_model_type = Some (u ''ASR''),
                 mc_model_id = Some (u ''Systran/faster-whisper-tiny.en''),
                 mc_duration_ms = Some (asr_duration_ms env),
                 mc_raw_response_snippet =
                   Some (take 200 (run_asr env asr_source (or_str (req_mime msg) (u ''audio/wav'')))),
                 mc_created_at = now_asr env\<rparr>,
                \<lparr>mc_id = uuid_llm env,
                 mc_message_id = Some (uuid_message env),
                 mc_model_type = Some (u ''LLM''),
                 mc_model_id = Some (u ''rule-based-generate-reply-v1''),
                 mc_duration_ms = Some (llm_duration_ms env),
                 mc_raw_response_snippet =
                   Some (take 200
                     (generate_reply (case_map env)
                       (run_asr env asr_source (or_str (req_mime msg) (u ''audio/wav''))))),
                 mc_created_at = now_llm env\<rparr>,
                \<lparr>mc_id = uuid_tts env,
                 mc_message_id = Some (uuid_message env),
                 mc_model_type = Some (u ''TTS''),
                 mc_model_id = Some (u ''stub-tts''),
                 mc_duration_ms = Some (tts_duration_ms env),
                 mc_raw_response_snippet =
                   map_option (take 200)
                     (run_tts env
                       (generate_reply (case_map env)
                         (run_asr env asr_source (or_str (req_mime msg) (u ''audio/wav''))))
                       (Some (uuid_message env))),
                 mc_created_at = now_tts env\<rparr>]))"
  using assms type_names
  by (simp add: run_stages_def initial_message_row_def Let_def or_str_Some_Nil
      split: sum.splits)

lemma run_stages_summary:
  assumes "req_type msg = u ''text'' \<or> req_type msg = u ''audio''"
    and "run_stages env msg (initial_message_row env sid msg)
           = Inr (transcript, llm_reply, message_row, calls)"
  shows "post_summary sid message_row =
           \<lparr>res_message_id = uuid_message env,
            res_session_id = sid,
            res_created_at = now_message env,
            res_incoming_text =
              (if req_type msg = u ''text'' then Some (or_str (req_text msg) []) else None),
            res_transcript = Some transcript,
            res_reply_text = Some llm_reply,
            res_reply_audio_path = run_tts env llm_reply (Some (uuid_message env))\<rparr>"
proof (cases "req_type msg = u ''text''")
  case True
  from assms(2) show ?thesis
    unfolding run_stages_text [OF True]
    using True by (auto simp: post_summary_def initial_message_row_def Let_def)
next
  case False
  with assms(1) have a: "req_type msg = u ''audio''" by simp
  from assms(2) show ?thesis
    unfolding run_stages_audio [OF a]
    using False by (auto simp: post_summary_def initial_message_row_def Let_def split: sum.splits)
qed

section \<open>Message post: the CRM dispatch\<close>

text \<open>
  C1. Whatever happens to the request sent to the tools endpoint (it is handled, it is
  refused, the client raises a timeout or a connection error), \<open>post_message\<close> returns the
  same thing. When the message and its model calls are committed, it returns the summary:
  the message id, the session id, the creation time, the incoming text, the transcript,
  the reply and the reply audio reference, all of them set before the dispatch.
\<close>

theorem post_message_result_ignores_dispatch:
  "fst (post_message (env\<lparr>dispatch := d\<rparr>) db sid msg)
     = fst (post_message (env\<lparr>dispatch := d'\<rparr>) db sid msg)
   \<and> ((req_type msg = u ''text'' \<or> req_type msg = u ''audio'')
       \<and> one_or_none (filter (\<lambda>s. sess_id s = sid) (sessions db)) = Inr (Some s)
       \<and> run_stages env msg (initial_message_row env sid msg)
           = Inr (transcript, llm_reply, message_row, calls)
       \<and> commit (post_commit env) (MessageRow message_row # map ModelCallRow calls) db = Inr db'
      \<longrightarrow> fst (post_message (env\<lparr>dispatch := d\<rparr>) db sid msg) =
            Inr \<lparr>res_message_id = uuid_message env,
                 res_session_id = sid,
                 res_created_at = now_message env,
                 res_incoming_text =
                   (if req_type msg = u ''text'' then Some (or_str (req_text msg) []) else None),
                 res_transcript = Some transcript,
                 res_reply_text = Some llm_reply,
                 res_reply_audio_path = run_tts env llm_reply (Some (uuid_message env))\<rparr>)"
proof (intro conjI impI)
  have indep: "fst (post_message (env\<lparr>dispatch := x\<rparr>) db sid msg) = fst (post_message env db sid msg)"
    for x
  proof (cases "req_type msg = u ''text'' \<or> req_type msg = u ''audio''")
    case False
    then show ?thesis by (simp add: post_message_bad_type)
  next
    case valid: True
    show ?thesis
    proof (cases "one_or_none (filter (\<lambda>s. sess_id s = sid) (sessions db))")
      case (Inl e)
      with valid show ?thesis by (auto simp: post_message_def Let_def)
    next
      case (Inr r)
      show ?thesis
      proof (cases r)
        case None
        with Inr valid show ?thesis by (auto simp: post_message_def Let_def)
      next
        case (Some s')
        with Inr have f: "one_or_none (filter (\<lambda>s. sess_id s = sid) (sessions db)) = Inr (Some s')"
          by simp
        show ?thesis
          unfolding post_message_found [OF valid f]
          by (simp add: run_stages_dispatch initial_message_row_dispatch
              split: sum.splits prod.splits)
      qed
    qed
  qed
  show "fst (post_message (env\<lparr>dispatch := d\<rparr>) db sid msg)
     = fst (post_message (env\<lparr>dispatch := d'\<rparr>) db sid msg)"
    using indep [of d] indep [of d'] by simp
  assume a: "(req_type msg = u ''text'' \<or> req_type msg = u ''audio'')
       \<and> one_or_none (filter (\<lambda>s. sess_id s = sid) (sessions db)) = Inr (Some s)
       \<and> run_stages env msg (initial_message_row env sid msg)
           = Inr (transcript, llm_reply, message_row, calls)
       \<and> commit (post_commit env) (MessageRow message_row # map ModelCallRow calls) db = Inr db'"
  then have "fst (post_message env db sid msg) = Inr (post_summary sid message_row)"
    using post_message_found [of msg sid db s env] by simp
  with a show "fst (post_message (env\<lparr>dispatch := d\<rparr>) db sid msg) =
            Inr \<lparr>res_message_id = uuid_message env,
                 res_session_id = sid,
                 res_created_at = now_message env,
                 res_incoming_text =
                   (if req_type msg = u ''text'' then Some (or_str (req_text msg) []) else None),
                 res_transcript = Some transcript,
                 res_reply_text = Some llm_reply,
                 res_reply_audio_path = run_tts env llm_reply (Some (uuid_message env))\<rparr>"
    using indep [of d] run_stages_summary [of msg env sid transcript llm_reply message_row calls]
    by simp
qed


section \<open>The example post\<close>

lemma commit_ok:
  assumes "storage_fault st = None" "\<not> pk_conflict rows db"
  shows "commit st rows db = Inr (foldl insert_row db rows)"
  using assms by (simp add: commit_def)

lemma reply_example:
  "generate_reply tab (u ''Mera bill bahut zyada aaya hai'') = billing_message"
  by (simp add: generate_reply_def truthy_str_def strip_def lower_def lower_cp_def isspace_def
      u_def Let_def)

lemma session_lookup_example:
  "one_or_none (filter (\<lambda>s. sess_id s = u ''s1'') (sessions db_read_example))
     = Inr (Some session_example)"
  by (simp add: db_read_example_def session_example_def one_or_none_def u_def)

lemma run_stages_example:
  "run_stages (post_env_example\<lparr>post_commit := st, dispatch := d\<rparr>) text_req_example
      (initial_message_row (post_env_example\<lparr>post_commit := st, dispatch := d\<rparr>)
         (u ''s1'') text_req_example)
     = Inr (u ''Mera bill bahut zyada aaya hai'', billing_message, message_row_example,
            [llm_call_example, tts_call_example])"
proof -
  have t: "req_type text_req_example = u ''text''" by (simp add: text_req_example_def)
  have p: "u ''media/reply_'' @ u ''m9'' @ u ''.wav'' = u ''media/reply_m9.wav''"
    by (simp add: u_def)
  have s: "take 200 (u ''media/reply_m9.wav'') = u ''media/reply_m9.wav''"
    by (simp add: u_def)
  show ?thesis
    unfolding run_stages_text [OF t]
    by (simp add: text_req_example_def or_str_Some_Nil reply_example initial_message_row_def
        post_env_example_def run_tts_def message_row_example_def llm_call_example_def
        tts_call_example_def p s)
qed

lemma commit_example:
  "commit storage_ok
      (MessageRow message_row_example # map ModelCallRow [llm_call_example, tts_call_example])
      db_read_example
     = Inr (db_read_example
             \<lparr>messages := messages db_read_example @ [message_row_example],
              model_calls := model_calls db_read_example @ [llm_call_example, tts_call_example]\<rparr>)"
proof -
  have "\<not> pk_conflict
      (MessageRow message_row_example # map ModelCallRow [llm_call_example, tts_call_example])
      db_read_example"
    by (simp add: pk_conflict_def db_keys_def db_read_example_def message_row_example_def
        llm_call_example_def tts_call_example_def message_example_def model_call_example_def
        session_example_def u_def)
  then show ?thesis by (simp add: commit_ok storage_ok_def)
qed

theorem post_message_result_ignores_dispatch_witness:
  "fst (post_message (post_env_example\<lparr>dispatch := dispatch_timeout\<rparr>) db_read_example
          (u ''s1'') text_req_example)
     = Inr \<lparr>res_message_id = u ''m9'',
            res_session_id = u ''s1'',
            res_created_at = u ''2024-01-01T10:01:00.000001Z'',
            res_incoming_text = Some (u ''Mera bill bahut zyada aaya hai''),
            res_transcript = Some (u ''Mera bill bahut zyada aaya hai''),
            res_reply_text = Some billing_message,
            res_reply_audio_path = Some (u ''media/reply_m9.wav'')\<rparr>
   \<and> fst (post_message (post_env_example\<lparr>dispatch := dispatch_example\<rparr>) db_read_example
          (u ''s1'') text_req_example)
     = fst (post_message (post_env_example\<lparr>dispatch := dispatch_timeout\<rparr>) db_read_example
          (u ''s1'') text_req_example)"
proof -
  have e: "post_env_example\<lparr>post_commit := storage_ok, dispatch := dispatch_example\<rparr>
             = post_env_example"
    by (simp add: post_env_example_def)
  have h: "(req_type text_req_example = u ''text'' \<or> req_type text_req_example = u ''audio'')
       \<and> one_or_none (filter (\<lambda>s. sess_id s = u ''s1'') (sessions db_read_example))
           = Inr (Some session_example)
       \<and> run_stages post_env_example text_req_example
            (initial_message_row post_env_example (u ''s1'') text_req_example)
           = Inr (u ''Mera bill bahut zyada aaya hai'', billing_message, message_row_example,
                  [llm_call_example, tts_call_example])
       \<and> commit (post_commit post_env_example)
            (MessageRow message_row_example
               # map ModelCallRow [llm_call_example, tts_call_example]) db_read_example
           = Inr (db_read_example
                   \<lparr>messages := messages db_read_example @ [message_row_example],
                    model_calls := model_calls db_read_example
                       @ [llm_call_example, tts_call_example]\<rparr>)"
    using run_stages_example [where st = storage_ok and d = dispatch_example] commit_example
      session_lookup_example
    by (simp add: e) (simp add: text_req_example_def post_env_example_def)
  have p: "u ''media/reply_'' @ u ''m9'' @ u ''.wav'' = u ''media/reply_m9.wav''"
    by (simp add: u_def)
  note w = post_message_result_ignores_dispatch
    [where env = post_env_example and d = dispatch_timeout and d' = dispatch_example
       and db = db_read_example and sid = "u ''s1''" and msg = text_req_example
       and s = session_example and transcript = "u ''Mera bill bahut zyada aaya hai''"
       and llm_reply = billing_message and message_row = message_row_example
       and calls = "[llm_call_example, tts_call_example]"]
  from w h have a: "fst (post_message (post_env_example\<lparr>dispatch := dispatch_timeout\<rparr>)
          db_read_example (u ''s1'') text_req_example)
     = Inr \<lparr>res_message_id = uuid_message post_env_example,
            res_session_id = u ''s1'',
            res_created_at = now_message post_env_example,
            res_incoming_text =
              (if req_type text_req_example = u ''text''
               then Some (or_str (req_text text_req_example) []) else None),
            res_transcript = Some (u ''Mera bill bahut zyada aaya hai''),
            res_reply_text = Some billing_message,
            res_reply_audio_path =
              run_tts post_env_example billing_message (Some (uuid_message post_env_example))\<rparr>"
    by blast
  from w have b: "fst (post_message (post_env_example\<lparr>dispatch := dispatch_example\<rparr>)
          db_read_example (u ''s1'') text_req_example)
     = fst (post_message (post_env_example\<lparr>dispatch := dispatch_timeout\<rparr>) db_read_example
          (u ''s1'') text_req_example)"
    by simp
  from a have c: "fst (post_message (post_env_example\<lparr>dispatch := dispatch_timeout\<rparr>)
          db_read_example (u ''s1'') text_req_example)
     = Inr \<lparr>res_message_id = u ''m9'',
            res_session_id = u ''s1'',
            res_created_at = u ''2024-01-01T10:01:00.000001Z'',
            res_incoming_text = Some (u ''Mera bill bahut zyada aaya hai''),
            res_transcript = Some (u ''Mera bill bahut zyada aaya hai''),
            res_reply_text = Some billing_message,
            res_reply_audio_path = Some (u ''media/reply_m9.wav'')\<rparr>"
    by (simp add: post_env_example_def text_req_example_def or_str_Some_Nil run_tts_def p)
  from c b show ?thesis by (rule conjI)
qed


section \<open>Message post: text\<close>

text \<open>
  C9. For a post of type text to an existing session, the stages build a message row whose
  transcript is the incoming text (the supplied text; the empty string when none is
  supplied) and exactly two model calls for the message, of type LLM and then TTS, and none
  of type ASR. When the write commits, the call returns that transcript, equal to the
  incoming text, and the store gains the message row and these two model calls and no other
  message or model call. When the write fails, nothing is stored and the call fails.
\<close>

theorem text_post_transcript_and_calls:
  assumes "req_type msg = u ''text''"
    and "one_or_none (filter (\<lambda>s. sess_id s = sid) (sessions db)) = Inr (Some s)"
  shows "\<exists>message_row llm_call tts_call.
      run_stages env msg (initial_message_row env sid msg)
        = Inr (or_str (req_text msg) [], generate_reply (case_map env) (or_str (req_text msg) []),
               message_row, [llm_call, tts_call])
    \<and> (\<forall>t. req_text msg = Some t \<longrightarrow> or_str (req_text msg) [] = t)
    \<and> msg_text message_row = Some (or_str (req_text msg) [])
    \<and> msg_transcript message_row = Some (or_str (req_text msg) [])
    \<and> msg_reply_text message_row = Some (generate_reply (case_map env) (or_str (req_text msg) []))
    \<and> mc_model_type llm_call = Some (u ''LLM'')
    \<and> mc_model_type tts_call = Some (u ''TTS'')
    \<and> mc_message_id llm_call = Some (msg_id message_row)
    \<and> mc_message_id tts_call = Some (msg_id message_row)
    \<and> (\<forall>db'. commit (post_commit env)
                 [MessageRow message_row, ModelCallRow llm_call, ModelCallRow tts_call] db
                 = Inr db' \<longrightarrow>
          (\<exists>r. fst (post_message env db sid msg) = Inr r
               \<and> res_incoming_text r = Some (or_str (req_text msg) [])
               \<and> res_transcript r = res_incoming_text r
               \<and> res_reply_text r = Some (generate_reply (case_map env) (or_str (req_text msg) [])))
          \<and> messages (snd (post_message env db sid msg)) = messages db @ [message_row]
          \<and> model_calls (snd (post_message env db sid msg))
               = model_calls db @ [llm_call, tts_call])
    \<and> (\<forall>e. commit (post_commit env)
                 [MessageRow message_row, ModelCallRow llm_call, ModelCallRow tts_call] db
                 = Inl e \<longrightarrow>
          post_message env db sid msg = (Inl (StorageError e), db))"
proof -
  let ?t = "or_str (req_text msg) []"
  let ?reply = "generate_reply (case_map env) ?t"
  define message_row where "message_row =
    (initial_message_row env sid msg)
       \<lparr>msg_reply_text := Some ?reply,
        msg_reply_audio_path_or_b64 := run_tts env ?reply (Some (uuid_message env))\<rparr>"
  define llm_call where "llm_call =
    \<lparr>mc_id = uuid_llm env,
     mc_message_id = Some (uuid_message env),
     mc_model_type = Some (u ''LLM''),
     mc_model_id = Some (u ''rule-based-generate-reply-v1''),
     mc_duration_ms = Some (llm_duration_ms env),
     mc_raw_response_snippet = Some (take 200 ?reply),
     mc_created_at = now_llm env\<rparr>"
  define tts_call where "tts_call =
    \<lparr>mc_id = uuid_tts env,
     mc_message_id = Some (uuid_message env),
     mc_model_type = Some (u ''TTS''),
     mc_model_id = Some (u ''stub-tts''),
     mc_duration_ms = Some (tts_duration_ms env),
     mc_raw_response_snippet =
       map_option (take 200) (run_tts env ?reply (Some (uuid_message env))),
     mc_created_at = now_tts env\<rparr>"
  have rs: "run_stages env msg (initial_message_row env sid msg)
        = Inr (?t, ?reply, message_row, [llm_call, tts_call])"
    unfolding run_stages_text [OF assms(1)] message_row_def llm_call_def tts_call_def by simp
  have valid: "req_type msg = u ''text'' \<or> req_type msg = u ''audio''"
    using assms(1) by simp
  note pm = post_message_found [OF valid assms(2), of env]
  have row: "msg_text message_row = Some ?t" "msg_transcript message_row = Some ?t"
    "msg_reply_text message_row = Some ?reply" "msg_id message_row = uuid_message env"
    using assms(1) by (simp_all add: message_row_def initial_message_row_def Let_def)
  have calls: "mc_model_type llm_call = Some (u ''LLM'')" "mc_model_type tts_call = Some (u ''TTS'')"
    "mc_message_id llm_call = Some (msg_id message_row)"
    "mc_message_id tts_call = Some (msg_id message_row)"
    by (simp_all add: llm_call_def tts_call_def row)
  have ok: "(\<exists>r. fst (post_message env db sid msg) = Inr r
               \<and> res_incoming_text r = Some ?t
               \<and> res_transcript r = res_incoming_text r
               \<and> res_reply_text r = Some ?reply)
          \<and> messages (snd (post_message env db sid msg)) = messages db @ [message_row]
          \<and> model_calls (snd (post_message env db sid msg)) = model_calls db @ [llm_call, tts_call]"
    if c: "commit (post_commit env)
             [MessageRow message_row, ModelCallRow llm_call, ModelCallRow tts_call] db = Inr db'"
    for db'
  proof -
    have d: "db' = db\<lparr>messages := messages db @ [message_row],
                      model_calls := model_calls db @ [llm_call, tts_call]\<rparr>"
      using commit_Inr [OF c] by simp
    have p: "post_message env db sid msg =
        (Inr (post_summary sid message_row),
         snd (client_post (dispatch env) db' (crm_payload sid s ?reply ?t)))"
      unfolding pm rs using c by simp
    have "messages (snd (post_message env db sid msg)) = messages db'"
      "model_calls (snd (post_message env db sid msg)) = model_calls db'"
      unfolding p using client_post_tables [of "dispatch env" db'] by simp_all
    with d have tabs: "messages (snd (post_message env db sid msg)) = messages db @ [message_row]"
      "model_calls (snd (post_message env db sid msg)) = model_calls db @ [llm_call, tts_call]"
      by simp_all
    have "fst (post_message env db sid msg) = Inr (post_summary sid message_row)"
      unfolding p by simp
    moreover have "res_incoming_text (post_summary sid message_row) = Some ?t"
      "res_transcript (post_summary sid message_row) = res_incoming_text (post_summary sid message_row)"
      "res_reply_text (post_summary sid message_row) = Some ?reply"
      by (simp_all add: post_summary_def row)
    ultimately show ?thesis using tabs by blast
  qed
  have ko: "post_message env db sid msg = (Inl (StorageError e), db)"
    if c: "commit (post_commit env)
             [MessageRow message_row, ModelCallRow llm_call, ModelCallRow tts_call] db = Inl e"
    for e
    unfolding pm rs using c by simp
  have sup: "\<forall>t. req_text msg = Some t \<longrightarrow> or_str (req_text msg) [] = t"
    by (simp add: or_str_Some_Nil)
  show ?thesis
    apply (rule exI [of _ message_row])
    apply (rule exI [of _ llm_call])
    apply (rule exI [of _ tts_call])
    apply (intro conjI)
             apply (rule rs)
            apply (rule sup)
           apply (rule row(1))
          apply (rule row(2))
         apply (rule row(3))
        apply (rule calls(1))
       apply (rule calls(2))
      apply (rule calls(3))
     apply (rule calls(4))
    using ok apply blast
    using ko apply blast
    done
qed

theorem text_post_transcript_and_calls_witness:
  "(\<exists>r. fst (post_message post_env_example db_read_example (u ''s1'') text_req_example) = Inr r
        \<and> res_incoming_text r = Some (u ''Mera bill bahut zyada aaya hai'')
        \<and> res_transcript r = Some (u ''Mera bill bahut zyada aaya hai'')
        \<and> res_reply_text r = Some billing_message)
   \<and> messages (snd (post_message post_env_example db_read_example (u ''s1'') text_req_example))
       = messages db_read_example @ [message_row_example]
   \<and> model_calls (snd (post_message post_env_example db_read_example (u ''s1'') text_req_example))
       = model_calls db_read_example @ [llm_call_example, tts_call_example]
   \<and> map mc_model_type [llm_call_example, tts_call_example] = [Some (u ''LLM''), Some (u ''TTS'')]"
proof -
  have e: "post_env_example\<lparr>post_commit := storage_ok, dispatch := dispatch_example\<rparr>
             = post_env_example"
    by (simp add: post_env_example_def)
  have rs: "run_stages post_env_example text_req_example
            (initial_message_row post_env_example (u ''s1'') text_req_example)
           = Inr (u ''Mera bill bahut zyada aaya hai'', billing_message, message_row_example,
                  [llm_call_example, tts_call_example])"
    using run_stages_example [where st = storage_ok and d = dispatch_example] by (simp add: e)
  have t: "req_type text_req_example = u ''text''" by (simp add: text_req_example_def)
  have x: "or_str (req_text text_req_example) [] = u ''Mera bill bahut zyada aaya hai''"
    by (simp add: text_req_example_def or_str_Some_Nil)
  have pc: "post_commit post_env_example = storage_ok" by (simp add: post_env_example_def)
  from text_post_transcript_and_calls [OF t session_lookup_example, of post_env_example]
  obtain message_row llm_call tts_call where
    a: "run_stages post_env_example text_req_example
          (initial_message_row post_env_example (u ''s1'') text_req_example)
        = Inr (or_str (req_text text_req_example) [],
               generate_reply (case_map post_env_example) (or_str (req_text text_req_example) []),
               message_row, [llm_call, tts_call])"
    and b: "\<forall>db'. commit (post_commit post_env_example)
                 [MessageRow message_row, ModelCallRow llm_call, ModelCallRow tts_call]
                 db_read_example = Inr db' \<longrightarrow>
          (\<exists>r. fst (post_message post_env_example db_read_example (u ''s1'') text_req_example) = Inr r
               \<and> res_incoming_text r = Some (or_str (req_text text_req_example) [])
               \<and> res_transcript r = res_incoming_text r
               \<and> res_reply_text r = Some (generate_reply (case_map post_env_example) (or_str (req_text text_req_example) [])))
          \<and> messages (snd (post_message post_env_example db_read_example (u ''s1'') text_req_example))
               = messages db_read_example @ [message_row]
          \<and> model_calls (snd (post_message post_env_example db_read_example (u ''s1'') text_req_example))
               = model_calls db_read_example @ [llm_call, tts_call]"
    by blast
  from a rs have eq: "message_row = message_row_example" "llm_call = llm_call_example"
    "tts_call = tts_call_example"
    by simp_all
  from b commit_example
  have c: "(\<exists>r. fst (post_message post_env_example db_read_example (u ''s1'') text_req_example) = Inr r
               \<and> res_incoming_text r = Some (u ''Mera bill bahut zyada aaya hai'')
               \<and> res_transcript r = res_incoming_text r
               \<and> res_reply_text r = Some (generate_reply (case_map post_env_example) (u ''Mera bill bahut zyada aaya hai'')))
          \<and> messages (snd (post_message post_env_example db_read_example (u ''s1'') text_req_example))
               = messages db_read_example @ [message_row_example]
          \<and> model_calls (snd (post_message post_env_example db_read_example (u ''s1'') text_req_example))
               = model_calls db_read_example @ [llm_call_example, tts_call_example]"
    unfolding eq x pc by simp
  have m: "map mc_model_type [llm_call_example, tts_call_example] = [Some (u ''LLM''), Some (u ''TTS'')]"
    by (simp add: llm_call_example_def tts_call_example_def)
  from c m show ?thesis
    by (simp add: reply_example) metis
qed


section \<open>Message post: unknown session\<close>

text \<open>
  C4, as the code has it. The type of the message is checked first: a post whose type is
  neither "text" nor "audio" fails with status 400, whether the session exists or not. A
  post of type "text" or "audio" whose session id belongs to no session fails with status
  404, "session not found", for every behaviour of the stages, of the storage engine and of
  the dispatch: no stage result enters the outcome, and the store is returned as it was, so
  no message, model call, CRM record or tool call is written.
\<close>

theorem post_message_unknown_session:
  "((req_type msg = u ''text'' \<or> req_type msg = u ''audio'')
      \<and> sid \<notin> set (map sess_id (sessions db)) \<longrightarrow>
      post_message env db sid msg = (Inl (HTTPException 404 (u ''session not found'')), db))
   \<and> (req_type msg \<noteq> u ''text'' \<and> req_type msg \<noteq> u ''audio'' \<longrightarrow>
      post_message env db sid msg =
        (Inl (HTTPException 400 (u ''type must be 'text' or 'audio'' @ [39])), db))"
  using post_message_no_session [of msg sid db env] post_message_bad_type [of msg env db sid]
  by blast

theorem post_message_unknown_session_witness:
  "post_message post_env_example db_read_example (u ''nosuch'') text_req_example
     = (Inl (HTTPException 404 (u ''session not found'')), db_read_example)
   \<and> post_message post_env_example db_read_example (u ''nosuch'')
        (audio_req_example (u ''UklGRg==''))
     = (Inl (HTTPException 404 (u ''session not found'')), db_read_example)"
proof -
  have n: "u ''nosuch'' \<notin> set (map sess_id (sessions db_read_example))"
    by (simp add: db_read_example_def session_example_def u_def)
  have t: "req_type text_req_example = u ''text'' \<or> req_type text_req_example = u ''audio''"
    by (simp add: text_req_example_def)
  have a: "req_type (audio_req_example (u ''UklGRg=='')) = u ''text''
      \<or> req_type (audio_req_example (u ''UklGRg=='')) = u ''audio''"
    by (simp add: audio_req_example_def)
  from post_message_unknown_session
        [of text_req_example "u ''nosuch''" db_read_example post_env_example] t n
  have 1: "post_message post_env_example db_read_example (u ''nosuch'') text_req_example
     = (Inl (HTTPException 404 (u ''session not found'')), db_read_example)"
    by blast
  from post_message_unknown_session
        [of "audio_req_example (u ''UklGRg=='')" "u ''nosuch''" db_read_example post_env_example] a n
  have 2: "post_message post_env_example db_read_example (u ''nosuch'')
        (audio_req_example (u ''UklGRg==''))
     = (Inl (HTTPException 404 (u ''session not found'')), db_read_example)"
    by blast
  from 1 2 show ?thesis by (rule conjI)
qed

theorem post_message_unknown_session_counterexample:
  "u ''nosuch'' \<notin> set (map sess_id (sessions db_read_example))
   \<and> post_message post_env_example db_read_example (u ''nosuch'') video_req_example
     = (Inl (HTTPException 400 (u ''type must be 'text' or 'audio'' @ [39])), db_read_example)
   \<and> fst (post_message post_env_example db_read_example (u ''nosuch'') video_req_example)
     \<noteq> Inl (HTTPException 404 (u ''session not found''))"
proof -
  have n: "u ''nosuch'' \<notin> set (map sess_id (sessions db_read_example))"
    by (simp add: db_read_example_def session_example_def u_def)
  have v: "req_type video_req_example \<noteq> u ''text''" "req_type video_req_example \<noteq> u ''audio''"
    by (simp_all add: video_req_example_def u_def)
  have p: "post_message post_env_example db_read_example (u ''nosuch'') video_req_example
     = (Inl (HTTPException 400 (u ''type must be 'text' or 'audio'' @ [39])), db_read_example)"
    using v by (rule post_message_bad_type)
  have "fst (post_message post_env_example db_read_example (u ''nosuch'') video_req_example)
     \<noteq> Inl (HTTPException 404 (u ''session not found''))"
    unfolding p by simp
  with n p show ?thesis by blast
qed

section \<open>Message post: a failing write\<close>

lemma post_message_commit_fails:
  assumes "req_type msg = u ''text'' \<or> req_type msg = u ''audio''"
    and "one_or_none (filter (\<lambda>s. sess_id s = sid) (sessions db)) = Inr (Some s)"
    and "run_stages env msg (initial_message_row env sid msg)
           = Inr (transcript, llm_reply, message_row, calls)"
    and "commit (post_commit env) (MessageRow message_row # map ModelCallRow calls) db = Inl e"
  shows "post_message env db sid msg = (Inl (StorageError e), db)"
  unfolding post_message_found [OF assms(1,2)] using assms(3,4) by simp

text \<open>
  C7, at a failing input. One commit writes the message row and its model calls, so a
  failing write leaves the store as it was. But nothing in \<open>post_message\<close> catches the
  exception of that commit: for a text post to an existing session at which the storage
  engine fails with "connection lost", the handler ends with the storage exception itself,
  not with an \<open>HTTPException\<close> carrying a status and a detail, which is what
  \<open>mcp_handler\<close> builds for the same failure.
\<close>

theorem post_message_commit_failure_escapes:
  "post_message (post_env_example\<lparr>post_commit := storage_down\<rparr>) db_read_example (u ''s1'')
      text_req_example
     = (Inl (StorageError (u ''connection lost'')), db_read_example)"
proof -
  let ?env = "post_env_example\<lparr>post_commit := storage_down\<rparr>"
  have e: "post_env_example\<lparr>post_commit := storage_down, dispatch := dispatch_example\<rparr> = ?env"
    by (simp add: post_env_example_def)
  have rs: "run_stages ?env text_req_example (initial_message_row ?env (u ''s1'') text_req_example)
           = Inr (u ''Mera bill bahut zyada aaya hai'', billing_message, message_row_example,
                  [llm_call_example, tts_call_example])"
    using run_stages_example [where st = storage_down and d = dispatch_example] by (simp add: e)
  have t: "req_type text_req_example = u ''text'' \<or> req_type text_req_example = u ''audio''"
    by (simp add: text_req_example_def)
  have c: "commit (post_commit ?env)
             (MessageRow message_row_example
                # map ModelCallRow [llm_call_example, tts_call_example]) db_read_example
           = Inl (u ''connection lost'')"
    by (simp add: commit_def storage_down_def)
  show ?thesis
    using t session_lookup_example rs c by (rule post_message_commit_fails)
qed

section \<open>Message post: audio\<close>

lemma post_message_undecodable_audio:
  assumes "req_type msg = u ''audio''"
    and "one_or_none (filter (\<lambda>s. sess_id s = sid) (sessions db)) = Inr (Some s)"
    and "req_audio_base64 msg = Some a" "a \<noteq> []" "b64decode env a = None"
  shows "post_message env db sid msg = (Inl B64DecodeError, db)"
proof -
  have valid: "req_type msg = u ''text'' \<or> req_type msg = u ''audio''"
    using assms(1) by simp
  have t: "truthy_opt (req_audio_base64 msg)" "or_str (req_audio_base64 msg) [] = a"
    using assms(3,4) by (simp_all add: truthy_opt_def truthy_str_def or_str_def)
  have s: "save_incoming_audio env (uuid_message env) msg = None"
    using t assms(5) by (simp add: save_incoming_audio_def)
  have "choose_asr_source env (save_incoming_audio env (uuid_message env) msg) msg
          = Inl B64DecodeError"
    using t assms(5) by (simp add: s choose_asr_source_def truthy_opt_def)
  then have "run_stages env msg (initial_message_row env sid msg) = Inl B64DecodeError"
    unfolding run_stages_audio [OF assms(1)] by simp
  then show ?thesis
    unfolding post_message_found [OF valid assms(2)] by simp
qed

lemma audio_stages_three_calls:
  assumes "req_type msg = u ''audio''"
    and "run_stages env msg (initial_message_row env sid msg)
           = Inr (transcript, llm_reply, message_row, calls)"
  shows "map mc_model_type calls = [Some (u ''ASR''), Some (u ''LLM''), Some (u ''TTS'')]
    \<and> map mc_message_id calls = replicate 3 (Some (msg_id message_row))"
  using assms(2) unfolding run_stages_audio [OF assms(1)]
  by (auto simp: initial_message_row_def Let_def numeral_3_eq_3 split: sum.splits)

text \<open>
  C3, at a failing input. When the audio is decoded, or none is sent, the stages build
  three model calls, ASR, LLM and TTS in that order, whatever the ASR and TTS stages
  return (\<open>audio_stages_three_calls\<close>). But the decoder is called a second time outside
  every \<open>try\<close>: an audio post to an existing session whose base64 text the decoder rejects
  ("abc" has a wrong padding) ends with the decoder's exception, and no model call is
  built or stored.
\<close>

theorem audio_post_bad_base64_raises:
  "post_message post_env_example db_read_example (u ''s1'') (audio_req_example (u ''abc''))
     = (Inl B64DecodeError, db_read_example)"
proof -
  have a: "req_type (audio_req_example (u ''abc'')) = u ''audio''"
    "req_audio_base64 (audio_req_example (u ''abc'')) = Some (u ''abc'')"
    by (simp_all add: audio_req_example_def)
  have n: "u ''abc'' \<noteq> []" by (simp add: u_def)
  have d: "b64decode post_env_example (u ''abc'') = None"
    by (simp add: post_env_example_def u_def)
  show ?thesis
    using a(1) session_lookup_example a(2) n d by (rule post_message_undecodable_audio)
qed


end
